theory Spec2Isabelle
  imports Complex_Main "HOL-Library.Log_Nat"
begin

section \<open>JavaScript strings and numbers\<close>

text \<open>
  A JavaScript string is a sequence of UTF-16 code units; \<open>length\<close>, \<open>substring\<close> and
  \<open>includes\<close> count and compare code units. A code unit is modelled by its number, so that
  the lira sign (U+20BA) and the euro sign (U+20AC) are one unit each, as they are for the
  source. \<open>js\<close> embeds an ASCII literal.
\<close>

type_synonym jsstring = "nat list"

definition js :: "string \<Rightarrow> jsstring" where
  "js s = map of_char s"

definition lira :: jsstring where
  "lira = [8378]"

definition euro :: jsstring where
  "euro = [8364]"

definition dollar :: jsstring where
  "dollar = [36]"

text \<open>\<open>WhiteSpace\<close> and \<open>LineTerminator\<close> of ECMAScript: what \<open>trim\<close> and \<open>parseFloat\<close> skip.\<close>

definition isWhiteSpace :: "nat \<Rightarrow> bool" where
  "isWhiteSpace c \<longleftrightarrow>
     c = 9 \<or> c = 10 \<or> c = 11 \<or> c = 12 \<or> c = 13 \<or> c = 32 \<or> c = 160 \<or> c = 5760 \<or>
     (8192 \<le> c \<and> c \<le> 8202) \<or> c = 8232 \<or> c = 8233 \<or> c = 8239 \<or> c = 8287 \<or>
     c = 12288 \<or> c = 65279"

definition trim :: "jsstring \<Rightarrow> jsstring" where
  "trim s = rev (dropWhile isWhiteSpace (rev (dropWhile isWhiteSpace s)))"

fun startsWith :: "jsstring \<Rightarrow> jsstring \<Rightarrow> bool" where
  "startsWith s [] = True"
| "startsWith [] (p # ps) = False"
| "startsWith (c # cs) (p # ps) = (c = p \<and> startsWith cs ps)"

text \<open>\<open>s.includes(p)\<close>: \<open>p\<close> occurs in \<open>s\<close> as a contiguous run of code units.\<close>

fun str_includes :: "jsstring \<Rightarrow> jsstring \<Rightarrow> bool" where
  "str_includes [] p = (p = [])"
| "str_includes (c # cs) p = (startsWith (c # cs) p \<or> str_includes cs p)"

text \<open>\<open>s.replace(c, r)\<close> with a one-character string pattern: only the first occurrence
  is replaced.\<close>

fun replaceFirst :: "nat \<Rightarrow> jsstring \<Rightarrow> jsstring \<Rightarrow> jsstring" where
  "replaceFirst c r [] = []"
| "replaceFirst c r (x # xs) = (if x = c then r @ xs else x # replaceFirst c r xs)"

text \<open>
  A JavaScript number is not-a-number, an infinity or a finite binary64 value, which is kept
  as the rational it stands for; the two zeros are one.
\<close>

datatype jsnum = NaN | Num rat | PosInf | NegInf

definition isNaN :: "jsnum \<Rightarrow> bool" where
  "isNaN x \<longleftrightarrow> x = NaN"

text \<open>\<open>x > 0\<close>, \<open>x === 0\<close> and \<open>x < y\<close>; every comparison with \<open>NaN\<close> is false.\<close>

fun gt0 :: "jsnum \<Rightarrow> bool" where
  "gt0 (Num r) = (0 < r)"
| "gt0 PosInf = True"
| "gt0 _ = False"

definition isZero :: "jsnum \<Rightarrow> bool" where
  "isZero x \<longleftrightarrow> x = Num 0"

fun lessThan :: "jsnum \<Rightarrow> jsnum \<Rightarrow> bool" where
  "lessThan NaN _ = False"
| "lessThan _ NaN = False"
| "lessThan (Num a) (Num b) = (a < b)"
| "lessThan (Num a) PosInf = True"
| "lessThan NegInf (Num b) = True"
| "lessThan NegInf PosInf = True"
| "lessThan _ _ = False"

definition isDigit :: "nat \<Rightarrow> bool" where
  "isDigit c \<longleftrightarrow> 48 \<le> c \<and> c \<le> 57"

definition digitsValue :: "jsstring \<Rightarrow> nat" where
  "digitsValue ds = foldl (\<lambda>a c. 10 * a + (c - 48)) 0 ds"

text \<open>The optional \<open>ExponentPart\<close> of a decimal literal; it counts only with a digit in it.\<close>

definition signedDigits :: "jsstring \<Rightarrow> int option" where
  "signedDigits r =
     (case r of
        [] \<Rightarrow> None
      | d # r' \<Rightarrow>
          if d = 45 then
            (if takeWhile isDigit r' = [] then None
             else Some (- int (digitsValue (takeWhile isDigit r'))))
          else if d = 43 then
            (if takeWhile isDigit r' = [] then None
             else Some (int (digitsValue (takeWhile isDigit r'))))
          else if takeWhile isDigit r = [] then None
          else Some (int (digitsValue (takeWhile isDigit r))))"

definition exponentPart :: "jsstring \<Rightarrow> int" where
  "exponentPart r =
     (case r of
        [] \<Rightarrow> 0
      | c # r' \<Rightarrow>
          if c = 101 \<or> c = 69 then (case signedDigits r' of None \<Rightarrow> 0 | Some e \<Rightarrow> e)
          else 0)"

definition scale10 :: "rat \<Rightarrow> int \<Rightarrow> rat" where
  "scale10 m e = (if e < 0 then m / 10 ^ nat (- e) else m * 10 ^ nat e)"

text \<open>
  The Number value of a magnitude: the binary64 value nearest to it, the one with the even
  significand when two are equally near. The spacing of the values around \<open>r\<close> is
  \<open>2 powi (e - 52)\<close> for the binary exponent \<open>e\<close> of \<open>r\<close>, and not less than that of the
  exponent \<open>-1022\<close>, so that a magnitude of at most \<open>2 powi (- 1075)\<close> becomes \<open>0\<close>; a
  magnitude that rounds to \<open>2 ^ 1024\<close> becomes the infinity.
\<close>

definition roundHalfEven :: "rat \<Rightarrow> int" where
  "roundHalfEven x =
     (let f = \<lfloor>x\<rfloor>; d = x - of_int f in
      if d < 1 / 2 then f else if 1 / 2 < d then f + 1 else if even f then f else f + 1)"

definition ilog2 :: "rat \<Rightarrow> int" where
  "ilog2 r =
     (let k = bitlen (fst (quotient_of r)) - bitlen (snd (quotient_of r)) in
      if 2 powi k \<le> r then k else k - 1)"

definition numberValue :: "rat \<Rightarrow> jsnum" where
  "numberValue r =
     (if r \<le> 0 then Num 0
      else
        let e = max (ilog2 r) (- 1022);
            ulp = 2 powi (e - 52);
            v = of_int (roundHalfEven (r / ulp)) * ulp
        in if 2 ^ 1024 \<le> v then PosInf else Num v)"

text \<open>
  The unsigned part of \<open>parseFloat\<close>: the longest prefix that is a \<open>StrUnsignedDecimalLiteral\<close>
  (\<open>Infinity\<close>, digits with an optional fraction and exponent, or a fraction that starts
  with the period), and \<open>NaN\<close> when no prefix is one.
\<close>

definition unsignedLiteral :: "jsstring \<Rightarrow> jsnum" where
  "unsignedLiteral u =
     (if startsWith u (js ''Infinity'') then PosInf
      else
        let ip = takeWhile isDigit u;
            r1 = dropWhile isDigit u;
            fp = (case r1 of [] \<Rightarrow> [] | c # r \<Rightarrow> if c = 46 then takeWhile isDigit r else []);
            r2 = (case r1 of [] \<Rightarrow> [] | c # r \<Rightarrow> if c = 46 then dropWhile isDigit r else r1)
        in if ip = [] \<and> fp = [] then NaN
           else numberValue (scale10
                  (of_nat (digitsValue ip) + of_nat (digitsValue fp) / 10 ^ length fp)
                  (exponentPart r2)))"

fun negate :: "jsnum \<Rightarrow> jsnum" where
  "negate NaN = NaN"
| "negate (Num r) = Num (- r)"
| "negate PosInf = NegInf"
| "negate NegInf = PosInf"

definition parseFloat :: "jsstring \<Rightarrow> jsnum" where
  "parseFloat s =
     (case dropWhile isWhiteSpace s of
        [] \<Rightarrow> NaN
      | c # u \<Rightarrow>
          if c = 45 then negate (unsignedLiteral u)
          else if c = 43 then unsignedLiteral u
          else unsignedLiteral (c # u))"

section \<open>Price text and currency codes\<close>

text \<open>
  The expression \<open>t.replace(/[^0-9.,]/g, "").replace(",", ".")\<close> under \<open>parseFloat\<close>, which the
  source writes out for the meta tags, for \<open>span.price\<close>, for Trendyol and for the final scan.
\<close>

definition keepPriceChars :: "jsstring \<Rightarrow> jsstring" where
  "keepPriceChars t = filter (\<lambda>c. isDigit c \<or> c = 46 \<or> c = 44) t"

definition parsePriceText :: "jsstring \<Rightarrow> jsnum" where
  "parsePriceText t = parseFloat (replaceFirst 44 [46] (keepPriceChars t))"

text \<open>
  The parse of Amazon's \<open>.a-offscreen\<close> text: \<open>cleanPrice\<close> keeps the minus sign as well
  (\<open>/[^-0-9,.]/g\<close>), and a text with both separators loses its periods first.
\<close>

definition cleanPrice :: "jsstring \<Rightarrow> jsstring" where
  "cleanPrice t = filter (\<lambda>c. c = 45 \<or> isDigit c \<or> c = 44 \<or> c = 46) t"

definition parseOffscreen :: "jsstring \<Rightarrow> jsnum" where
  "parseOffscreen priceText =
     (let c = cleanPrice priceText in
      if str_includes c [44] \<and> str_includes c [46] then
        parseFloat (replaceFirst 44 [46] (filter (\<lambda>x. x \<noteq> 46) c))
      else if str_includes c [44] then parseFloat (replaceFirst 44 [46] c)
      else parseFloat c)"

text \<open>Amazon's whole and fraction parts: digits only, the fraction \<open>00\<close> when it has none.\<close>

definition parseWholeFraction :: "jsstring \<Rightarrow> jsstring \<Rightarrow> jsnum" where
  "parseWholeFraction w f =
     (let whole = filter isDigit w;
          fraction = (if filter isDigit f = [] then js ''00'' else filter isDigit f)
      in parseFloat (whole @ [46] @ fraction))"

text \<open>The conditional chain that turns a currency code into its symbol (JSON-LD and meta tags).\<close>

definition mapCurrency :: "jsstring \<Rightarrow> jsstring" where
  "mapCurrency c =
     (if c = js ''TRY'' then lira
      else if c = js ''USD'' then dollar
      else if c = js ''EUR'' then euro
      else c)"

section \<open>The page as the extractor reads it\<close>

text \<open>
  \<open>scrapeProductData\<close> reads the fetched markup only through cheerio queries and through
  \<open>JSON.parse\<close> of the JSON-LD scripts, so a page is the record of what those calls return.
  The fields read from a JSON-LD object have the types of the variables they are assigned to
  (\<open>name\<close> and \<open>priceCurrency\<close> are strings; \<open>price\<close> is a string or a number, for which
  \<open>parseFloat\<close> of its string gives the number back); an absent or
  falsy field is \<open>None\<close>, \<open>null\<close> in place of an object is \<open>None\<close>, and a script whose text
  \<open>JSON.parse\<close> rejects is \<open>None\<close> in \<open>ldJson\<close>.
\<close>

datatype ld_price = PriceStr jsstring | PriceNum jsnum

record ld_offer =
  offer_price :: "ld_price option"
  offer_priceCurrency :: "jsstring option"

datatype ld_offers = Offer ld_offer | OfferArray "ld_offer list"

record ld_item =
  item_type :: "jsstring option"
  item_name :: "jsstring option"
  item_offers :: "ld_offers option"

datatype ld_json = Single "ld_item option" | Array "ld_item option list"

record element =
  el_class :: "jsstring option"
  el_id :: "jsstring option"
  el_text :: jsstring

record page =
  ldJson :: "ld_json option list"
  meta_og_title :: "jsstring option"
  meta_twitter_title :: "jsstring option"
  meta_product_price_amount :: "jsstring option"
  meta_og_price_amount :: "jsstring option"
  meta_twitter_data1 :: "jsstring option"
  meta_product_price_currency :: "jsstring option"
  meta_og_price_currency :: "jsstring option"
  h1_product_name :: jsstring
  span_price :: jsstring
  a_price_whole :: jsstring
  a_price_fraction :: jsstring
  a_offscreen :: jsstring
  prc_dsc :: jsstring
  h1_first :: jsstring
  title_tag :: jsstring
  elements :: "element list"

text \<open>\<open>a || b\<close> on the result of \<open>attr("content")\<close>: a missing attribute and the empty string
  are both falsy.\<close>

definition truthy :: "jsstring option \<Rightarrow> bool" where
  "truthy a \<longleftrightarrow> (case a of None \<Rightarrow> False | Some s \<Rightarrow> s \<noteq> [])"

definition orElse :: "jsstring option \<Rightarrow> jsstring option \<Rightarrow> jsstring option" where
  "orElse a b = (if truthy a then a else b)"

text \<open>The four locals of \<open>scrapeProductData\<close>.\<close>

record locals =
  title :: jsstring
  price :: jsnum
  priceText :: jsstring
  currency :: jsstring

definition initial :: locals where
  "initial = \<lparr>title = [], price = Num 0, priceText = [], currency = lira\<rparr>"

section \<open>Step 1: JSON-LD\<close>

text \<open>
  One item of a block either lets the loop go on, ends the whole \<open>each\<close> (\<open>return false\<close>), or
  throws a \<open>TypeError\<close> that the \<open>catch\<close> of the block swallows; the assignments made before
  that stay.
\<close>

datatype flow = Next locals | Stop locals | Thrown locals

definition priceTruthy :: "ld_price \<Rightarrow> bool" where
  "priceTruthy p = (case p of PriceStr s \<Rightarrow> s \<noteq> [] | PriceNum n \<Rightarrow> n \<noteq> Num 0 \<and> n \<noteq> NaN)"

definition parseFloatOf :: "ld_price \<Rightarrow> jsnum" where
  "parseFloatOf p = (case p of PriceStr s \<Rightarrow> parseFloat s | PriceNum n \<Rightarrow> n)"

definition isProduct :: "ld_item \<Rightarrow> bool" where
  "isProduct it \<longleftrightarrow>
     item_type it = Some (js ''Product'') \<or> item_type it = Some (js ''http://schema.org/Product'')"

definition firstOffer :: "ld_offers \<Rightarrow> ld_offer option" where
  "firstOffer os =
     (case os of Offer x \<Rightarrow> Some x | OfferArray [] \<Rightarrow> None | OfferArray (x # _) \<Rightarrow> Some x)"

definition ldOffer :: "ld_offer \<Rightarrow> locals \<Rightarrow> locals" where
  "ldOffer x st =
     (let st1 = (case offer_price x of
                   None \<Rightarrow> st
                 | Some p \<Rightarrow> if priceTruthy p then st\<lparr>price := parseFloatOf p\<rparr> else st)
      in (case offer_priceCurrency x of
            None \<Rightarrow> st1
          | Some c \<Rightarrow> if c \<noteq> [] then st1\<lparr>currency := mapCurrency c\<rparr> else st1))"

definition ldItem :: "ld_item option \<Rightarrow> locals \<Rightarrow> flow" where
  "ldItem i st =
     (case i of
        None \<Rightarrow> Thrown st
      | Some it \<Rightarrow>
          if isProduct it then
            (let st1 = (if truthy (item_name it) then st\<lparr>title := the (item_name it)\<rparr> else st)
             in case item_offers it of
                  None \<Rightarrow> Next st1
                | Some os \<Rightarrow>
                    (case firstOffer os of
                       None \<Rightarrow> Thrown st1
                     | Some x \<Rightarrow>
                         (let st2 = ldOffer x st1
                          in if gt0 (price st2) then Stop st2 else Next st2)))
          else Next st)"

fun ldItems :: "ld_item option list \<Rightarrow> locals \<Rightarrow> flow" where
  "ldItems [] st = Next st"
| "ldItems (i # rest) st =
     (case ldItem i st of
        Next st' \<Rightarrow> ldItems rest st'
      | Stop st' \<Rightarrow> Stop st'
      | Thrown st' \<Rightarrow> Thrown st')"

definition itemsOf :: "ld_json \<Rightarrow> ld_item option list" where
  "itemsOf j = (case j of Single i \<Rightarrow> [i] | Array xs \<Rightarrow> xs)"

fun ldBlocks :: "ld_json option list \<Rightarrow> locals \<Rightarrow> locals" where
  "ldBlocks [] st = st"
| "ldBlocks (None # rest) st = ldBlocks rest st"
| "ldBlocks (Some j # rest) st =
     (case ldItems (itemsOf j) st of
        Stop st' \<Rightarrow> st'
      | Next st' \<Rightarrow> ldBlocks rest st'
      | Thrown st' \<Rightarrow> ldBlocks rest st')"

section \<open>Steps 2 to 5\<close>

definition sniffCurrency :: "jsstring \<Rightarrow> jsstring \<Rightarrow> jsstring" where
  "sniffCurrency text cur =
     (if str_includes text dollar then dollar
      else if str_includes text euro then euro
      else if str_includes text (js ''TL'') \<or> str_includes text lira then lira
      else cur)"

definition metaTags :: "page \<Rightarrow> locals \<Rightarrow> locals" where
  "metaTags pg st =
     (let st1 = (if title st = [] then
                   st\<lparr>title := (case orElse (meta_og_title pg) (meta_twitter_title pg) of
                                   None \<Rightarrow> [] | Some t \<Rightarrow> t)\<rparr>
                 else st);
          metaPrice = orElse (meta_product_price_amount pg)
                        (orElse (meta_og_price_amount pg) (meta_twitter_data1 pg));
          st2 = (if isZero (price st1) \<and> truthy metaPrice then
                   st1\<lparr>price := parsePriceText (the metaPrice)\<rparr>
                 else st1);
          metaCurrency = orElse (meta_product_price_currency pg) (meta_og_price_currency pg)
      in if truthy metaCurrency then st2\<lparr>currency := mapCurrency (the metaCurrency)\<rparr> else st2)"

definition selectors :: "page \<Rightarrow> locals \<Rightarrow> locals" where
  "selectors pg st =
     (let st1 = (if title st = [] then st\<lparr>title := trim (h1_product_name pg)\<rparr> else st)
      in if isZero (price st1) then
           (let t = trim (span_price pg); st2 = st1\<lparr>priceText := t\<rparr>
            in if t \<noteq> [] then
                 st2\<lparr>price := parsePriceText t, currency := sniffCurrency t (currency st2)\<rparr>
               else st2)
         else st1)"

definition amazon :: "jsstring \<Rightarrow> page \<Rightarrow> locals \<Rightarrow> locals" where
  "amazon url pg st =
     (if str_includes url (js ''amazon.com'') then
        (let amazonPriceWhole = trim (a_price_whole pg);
             amazonPriceFraction = trim (a_price_fraction pg);
             amazonOffscreen = trim (a_offscreen pg);
             st1 = (if amazonOffscreen \<noteq> [] then
                      st\<lparr>priceText := amazonOffscreen, price := parseOffscreen amazonOffscreen\<rparr>
                    else if amazonPriceWhole \<noteq> [] then
                      st\<lparr>price := parseWholeFraction amazonPriceWhole amazonPriceFraction\<rparr>
                    else st)
         in if gt0 (price st1) then
              st1\<lparr>currency := (if str_includes url (js ''.tr'') then lira else dollar)\<rparr>
            else st1)
      else st)"

definition trendyol :: "jsstring \<Rightarrow> page \<Rightarrow> locals \<Rightarrow> locals" where
  "trendyol url pg st =
     (if str_includes url (js ''trendyol.com'') then
        (let st1 = st\<lparr>currency := lira\<rparr>
         in if isZero (price st1) \<and> trim (prc_dsc pg) \<noteq> [] then
              st1\<lparr>price := parsePriceText (trim (prc_dsc pg))\<rparr>
            else st1)
      else st)"

definition titleFallback :: "page \<Rightarrow> locals \<Rightarrow> locals" where
  "titleFallback pg st =
     (if title st = [] then
        st\<lparr>title := (if trim (h1_first pg) \<noteq> [] then trim (h1_first pg)
                      else if trim (title_tag pg) \<noteq> [] then trim (title_tag pg)
                      else js ''Unknown Product'')\<rparr>
      else st)"

text \<open>The selector \<open>[class*="price"], [id*="price"]\<close>: the elements, in document order, whose
  \<open>class\<close> or \<open>id\<close> attribute is there and contains \<open>price\<close>.\<close>

definition attrContains :: "jsstring option \<Rightarrow> jsstring \<Rightarrow> bool" where
  "attrContains a v \<longleftrightarrow> (case a of None \<Rightarrow> False | Some s \<Rightarrow> str_includes s v)"

definition priceLike :: "element \<Rightarrow> bool" where
  "priceLike e \<longleftrightarrow> attrContains (el_class e) (js ''price'') \<or> attrContains (el_id e) (js ''price'')"

text \<open>The callback of the final \<open>each\<close>: \<open>return true\<close> goes to the next element,
  \<open>return false\<close> ends the scan.\<close>

fun scanPrices :: "element list \<Rightarrow> locals \<Rightarrow> locals" where
  "scanPrices [] st = st"
| "scanPrices (el # rest) st =
     (let text = trim (el_text el) in
      if str_includes text (js ''%'') \<or> length text < 2 \<or> length text > 20 then
        scanPrices rest st
      else
        (let detectedPrice = parsePriceText text in
         if gt0 detectedPrice then
           st\<lparr>price := detectedPrice, priceText := text,
              currency := sniffCurrency text (currency st)\<rparr>
         else scanPrices rest st))"

definition priceFallback :: "page \<Rightarrow> locals \<Rightarrow> locals" where
  "priceFallback pg st =
     (if isZero (price st) then scanPrices (filter priceLike (elements pg)) st else st)"

definition truncateTitle :: "jsstring \<Rightarrow> jsstring" where
  "truncateTitle t = (if length t > 100 then take 97 t @ js ''...'' else t)"

section \<open>The extractor and the fetch around it\<close>

text \<open>The object \<open>scrapeProductData\<close> returns: the success with its four fields, or the failure
  with its message.\<close>

datatype scraped =
  Success (res_title: jsstring) (res_price: jsnum) (res_currency: jsstring) (res_rawPrice: jsstring)
| Failure (res_error: jsstring)

text \<open>Steps 1 to 4 in their order, then the final fallbacks of step 5.\<close>

definition strategies1to4 :: "jsstring \<Rightarrow> page \<Rightarrow> locals" where
  "strategies1to4 url pg =
     trendyol url pg (amazon url pg (selectors pg (metaTags pg (ldBlocks (ldJson pg) initial))))"

definition strategyChain :: "jsstring \<Rightarrow> page \<Rightarrow> locals" where
  "strategyChain url pg = priceFallback pg (titleFallback pg (strategies1to4 url pg))"

definition result :: "locals \<Rightarrow> scraped" where
  "result st =
     Success (truncateTitle (title st)) (if isNaN (price st) then Num 0 else price st)
       (currency st) (priceText st)"

text \<open>
  What \<open>fetch\<close> does with a URL: it rejects (the 8 second abort, a network failure) with a
  message, or it resolves to a response with its \<open>ok\<close> flag, its status text and its body.
\<close>

datatype fetched = Rejected jsstring | Response bool jsstring page

definition errorMessage :: "jsstring \<Rightarrow> jsstring" where
  "errorMessage m = (if m \<noteq> [] then m else js ''Failed to scrape product data'')"

definition scrapeProductData :: "(jsstring \<Rightarrow> fetched) \<Rightarrow> jsstring \<Rightarrow> scraped" where
  "scrapeProductData fetch url =
     (case fetch url of
        Rejected m \<Rightarrow> Failure (errorMessage m)
      | Response ok statusText pg \<Rightarrow>
          if \<not> ok then Failure (errorMessage (js ''Failed to fetch URL: '' @ statusText))
          else result (strategyChain url pg))"

record scrapedPrice =
  sp_price :: jsnum
  sp_title :: jsstring
  sp_currency :: jsstring

definition scrapePrice :: "(jsstring \<Rightarrow> fetched) \<Rightarrow> jsstring \<Rightarrow> scrapedPrice" where
  "scrapePrice fetch url =
     (case scrapeProductData fetch url of
        Success t p c raw \<Rightarrow>
          \<lparr>sp_price = (if gt0 p then p else Num 0), sp_title = t, sp_currency = c\<rparr>
      | Failure e \<Rightarrow>
          \<lparr>sp_price = Num 0, sp_title = js ''Unknown Product'', sp_currency = lira\<rparr>)"

section \<open>The store and the endpoints\<close>

text \<open>
  The Prisma tables the handlers touch. A price-history row keeps its product and its price;
  rows are in the order of their creation, so the newest is last. The handlers run behind
  \<open>sessionMiddleware\<close>, which resolves the cookie to \<open>req.userId\<close> and touches the user table
  only; they take that user id, and the route's \<open>id\<close> after \<open>parseInt\<close>.
\<close>

record product =
  prod_id :: int
  prod_url :: jsstring
  prod_title :: jsstring
  currentPrice :: jsnum
  prod_currency :: jsstring
  userId :: int

record sample =
  ph_productId :: int
  ph_price :: jsnum

record user =
  user_id :: int
  notificationEmail :: "jsstring option"

record database =
  products :: "product list"
  priceHistory :: "sample list"
  users :: "user list"

text \<open>\<open>prisma.product.findFirst({ where: { id, userId } })\<close>.\<close>

definition findFirst :: "int \<Rightarrow> int \<Rightarrow> database \<Rightarrow> product option" where
  "findFirst i uid db = find (\<lambda>p. prod_id p = i \<and> userId p = uid) (products db)"

definition findProduct :: "int \<Rightarrow> database \<Rightarrow> product option" where
  "findProduct i db = find (\<lambda>p. prod_id p = i) (products db)"

definition historyOf :: "int \<Rightarrow> database \<Rightarrow> sample list" where
  "historyOf i db = filter (\<lambda>s. ph_productId s = i) (priceHistory db)"

text \<open>
  \<open>prisma.product.update\<close> with the nested \<open>priceHistory.create\<close>: one write that sets the
  price and the currency and adds the sample, and rejects (\<open>None\<close>) when no product has the id.
\<close>

definition product_update :: "int \<Rightarrow> jsnum \<Rightarrow> jsstring \<Rightarrow> database \<Rightarrow> database option" where
  "product_update i p c db =
     (if findProduct i db = None then None
      else Some (db\<lparr>products :=
                       map (\<lambda>x. if prod_id x = i then x\<lparr>currentPrice := p, prod_currency := c\<rparr> else x)
                         (products db),
                     priceHistory := priceHistory db @ [\<lparr>ph_productId = i, ph_price = p\<rparr>]\<rparr>))"

definition priceHistory_deleteMany :: "int \<Rightarrow> database \<Rightarrow> database" where
  "priceHistory_deleteMany i db =
     db\<lparr>priceHistory := filter (\<lambda>s. ph_productId s \<noteq> i) (priceHistory db)\<rparr>"

definition product_delete :: "int \<Rightarrow> database \<Rightarrow> database option" where
  "product_delete i db =
     (if findProduct i db = None then None
      else Some (db\<lparr>products := filter (\<lambda>x. prod_id x \<noteq> i) (products db)\<rparr>))"

text \<open>What a handler answers: a status with a body, or nothing when its promise rejects
  (no handler of the source catches that).\<close>

datatype body =
  ErrorBody jsstring
| ProductBody product "sample list"
| SuccessBody
| UpdatedBody nat

datatype reply = Reply nat body | Rejection

definition notFound :: reply where
  "notFound = Reply 404 (ErrorBody (js ''Product not found or access denied''))"

text \<open>\<open>POST /api/products/:id/check\<close>.\<close>

definition post_products_id_check ::
  "(jsstring \<Rightarrow> fetched) \<Rightarrow> int \<Rightarrow> int \<Rightarrow> database \<Rightarrow> reply \<times> database" where
  "post_products_id_check fetch uid i db =
     (case findFirst i uid db of
        None \<Rightarrow> (notFound, db)
      | Some product \<Rightarrow>
          (let r = scrapePrice fetch (prod_url product) in
           case product_update i (sp_price r) (sp_currency r) db of
             None \<Rightarrow> (Rejection, db)
           | Some db' \<Rightarrow>
               (case findProduct i db' of
                  None \<Rightarrow> (Rejection, db')
                | Some updatedProduct \<Rightarrow>
                    (Reply 200 (ProductBody updatedProduct (take 10 (rev (historyOf i db')))),
                     db'))))"

text \<open>\<open>DELETE /api/products/:id\<close>: the history first, then the product.\<close>

definition delete_products_id :: "int \<Rightarrow> int \<Rightarrow> database \<Rightarrow> reply \<times> database" where
  "delete_products_id uid i db =
     (case findFirst i uid db of
        None \<Rightarrow> (notFound, db)
      | Some product \<Rightarrow>
          (let db1 = priceHistory_deleteMany i db in
           case product_delete i db1 of
             None \<Rightarrow> (Rejection, db1)
           | Some db2 \<Rightarrow> (Reply 200 SuccessBody, db2)))"

text \<open>
  \<open>sendPriceDropEmail\<close> hands one message to the transporter unless the address is empty; a
  failure of the transport is caught inside it. The outbox is the list of messages handed over.
\<close>

record mail =
  mail_to :: jsstring
  mail_title :: jsstring
  mail_oldPrice :: jsnum
  mail_newPrice :: jsnum
  mail_currency :: jsstring
  mail_url :: jsstring

definition sendPriceDropEmail ::
  "jsstring \<Rightarrow> jsstring \<Rightarrow> jsnum \<Rightarrow> jsnum \<Rightarrow> jsstring \<Rightarrow> jsstring \<Rightarrow> mail list \<Rightarrow> mail list" where
  "sendPriceDropEmail to productTitle oldPrice newPrice cur url outbox =
     (if to = [] then outbox
      else outbox @ [\<lparr>mail_to = to, mail_title = productTitle, mail_oldPrice = oldPrice,
                       mail_newPrice = newPrice, mail_currency = cur, mail_url = url\<rparr>])"

text \<open>
  \<open>GET /api/cron/check\<close>. The products are listed once, each with its user
  (\<open>include: { user: true }\<close>; the relation is required, the source reads \<open>product.user\<close>
  without a test), and the loop runs over that list; the body of the loop is inside \<open>try\<close>,
  so a rejected update leaves the store, the outbox and the count as they were. The job that
  \<open>cron.schedule\<close> starts every six hours runs the same loop without the count.
\<close>

record sweepState =
  sw_db :: database
  sw_outbox :: "mail list"
  updatedCount :: nat

definition findManyWithUser :: "database \<Rightarrow> (product \<times> user) list" where
  "findManyWithUser db =
     concat (map (\<lambda>p. case find (\<lambda>u. user_id u = userId p) (users db) of
                          None \<Rightarrow> []
                        | Some u \<Rightarrow> [(p, u)])
               (products db))"

definition checkOne ::
  "(jsstring \<Rightarrow> fetched) \<Rightarrow> product \<times> user \<Rightarrow> sweepState \<Rightarrow> sweepState" where
  "checkOne fetch pu st =
     (let product = fst pu;
          r = scrapePrice fetch (prod_url product)
      in if gt0 (sp_price r) then
           (let oldPrice = currentPrice product in
            case product_update (prod_id product) (sp_price r) (sp_currency r) (sw_db st) of
              None \<Rightarrow> st
            | Some db' \<Rightarrow>
                (let email = notificationEmail (snd pu);
                     outbox' =
                       (if lessThan (sp_price r) oldPrice \<and> truthy email then
                          sendPriceDropEmail (the email) (prod_title product) oldPrice (sp_price r)
                            (sp_currency r) (prod_url product) (sw_outbox st)
                        else sw_outbox st)
                 in \<lparr>sw_db = db', sw_outbox = outbox', updatedCount = updatedCount st + 1\<rparr>))
         else st)"

fun sweep ::
  "(jsstring \<Rightarrow> fetched) \<Rightarrow> (product \<times> user) list \<Rightarrow> sweepState \<Rightarrow> sweepState" where
  "sweep fetch [] st = st"
| "sweep fetch (pu # rest) st = sweep fetch rest (checkOne fetch pu st)"

definition get_cron_check ::
  "(jsstring \<Rightarrow> fetched) \<Rightarrow> database \<Rightarrow> mail list \<Rightarrow> reply \<times> database \<times> mail list" where
  "get_cron_check fetch db outbox =
     (let st = sweep fetch (findManyWithUser db) \<lparr>sw_db = db, sw_outbox = outbox, updatedCount = 0\<rparr>
      in (Reply 200 (UpdatedBody (updatedCount st)), sw_db st, sw_outbox st))"

section \<open>Concrete pages\<close>

text \<open>A page on which every query comes back empty, to build examples from.\<close>

definition blankPage :: page where
  "blankPage =
     \<lparr>ldJson = [], meta_og_title = None, meta_twitter_title = None,
      meta_product_price_amount = None, meta_og_price_amount = None, meta_twitter_data1 = None,
      meta_product_price_currency = None, meta_og_price_currency = None,
      h1_product_name = [], span_price = [], a_price_whole = [], a_price_fraction = [],
      a_offscreen = [], prc_dsc = [], h1_first = [], title_tag = [], elements = []\<rparr>"

text \<open>The web on which every URL answers 200 with the same page.\<close>

definition serve :: "page \<Rightarrow> jsstring \<Rightarrow> fetched" where
  "serve pg url = Response True (js ''OK'') pg"

text \<open>A page with nothing but a document title of 150 letters between spaces.\<close>

definition longTitlePage :: page where
  "longTitlePage = blankPage\<lparr>title_tag := js ''  '' @ replicate 150 65 @ js '' ''\<rparr>"

text \<open>
  The final scan in the specification's words: of the price-like elements, in document order,
  those whose trimmed text has a percent sign or fewer than 2 or more than 20 code units are
  skipped, and the first of the others whose parsed value is positive is the hit.
\<close>

definition skipped :: "jsstring \<Rightarrow> bool" where
  "skipped text \<longleftrightarrow> str_includes text (js ''%'') \<or> length text < 2 \<or> 20 < length text"

definition firstHit :: "element list \<Rightarrow> jsstring option" where
  "firstHit els =
     find (\<lambda>text. gt0 (parsePriceText text))
       (filter (\<lambda>text. \<not> skipped text) (map (\<lambda>e. trim (el_text e)) (filter priceLike els)))"

text \<open>
  An element that is not price-like, a discount badge, a text of one code unit, a text of 25,
  a price of zero, a price, and a second price after it.
\<close>

definition badgePage :: page where
  "badgePage =
     blankPage\<lparr>elements :=
       [\<lparr>el_class = Some (js ''title''), el_id = None, el_text = js ''9.99''\<rparr>,
        \<lparr>el_class = Some (js ''price-badge''), el_id = None, el_text = js ''25% off''\<rparr>,
        \<lparr>el_class = Some (js ''price''), el_id = None, el_text = js ''5''\<rparr>,
        \<lparr>el_class = Some (js ''old-price''), el_id = None,
         el_text = js ''was 1234567890 1234567890''\<rparr>,
        \<lparr>el_class = None, el_id = Some (js ''price0''), el_text = js ''0.00''\<rparr>,
        \<lparr>el_class = None, el_id = Some (js ''our_price''), el_text = js '' $19.99 ''\<rparr>,
        \<lparr>el_class = Some (js ''price''), el_id = None, el_text = js ''24.99 TL''\<rparr>]\<rparr>"

text \<open>A page whose meta tag names USD and whose one price-like element has the given text.\<close>

definition symbolPage :: "jsstring \<Rightarrow> page" where
  "symbolPage t =
     blankPage\<lparr>meta_product_price_currency := Some (js ''USD''),
       elements := [\<lparr>el_class = Some (js ''price''), el_id = None, el_text = t\<rparr>]\<rparr>"

text \<open>No sample without its product.\<close>

definition noOrphans :: "database \<Rightarrow> bool" where
  "noOrphans db \<longleftrightarrow>
     (\<forall>s \<in> set (priceHistory db). \<exists>p \<in> set (products db). prod_id p = ph_productId s)"

text \<open>
  A store with three products at price 100, the first two of user 7 (who has a notification
  address) and the third of user 8, and a web on which the first page carries the price 90,
  the second fetch is aborted and the third page carries the price 110.
\<close>

definition shopDb :: database where
  "shopDb =
     \<lparr>products =
        [\<lparr>prod_id = 1, prod_url = js ''https://a.example/1'', prod_title = js ''A'',
          currentPrice = Num 100, prod_currency = lira, userId = 7\<rparr>,
         \<lparr>prod_id = 2, prod_url = js ''https://b.example/2'', prod_title = js ''B'',
          currentPrice = Num 100, prod_currency = lira, userId = 7\<rparr>,
         \<lparr>prod_id = 3, prod_url = js ''https://c.example/3'', prod_title = js ''C'',
          currentPrice = Num 100, prod_currency = lira, userId = 8\<rparr>],
      priceHistory =
        [\<lparr>ph_productId = 1, ph_price = Num 100\<rparr>, \<lparr>ph_productId = 2, ph_price = Num 100\<rparr>,
         \<lparr>ph_productId = 3, ph_price = Num 100\<rparr>],
      users =
        [\<lparr>user_id = 7, notificationEmail = Some (js ''u@mail.example'')\<rparr>,
         \<lparr>user_id = 8, notificationEmail = None\<rparr>]\<rparr>"

definition shopWeb :: "jsstring \<Rightarrow> fetched" where
  "shopWeb url =
     (if url = js ''https://a.example/1'' then
        Response True (js ''OK'') (blankPage\<lparr>meta_og_price_amount := Some (js ''90'')\<rparr>)
      else if url = js ''https://b.example/2'' then Rejected (js ''This operation was aborted'')
      else Response True (js ''OK'') (blankPage\<lparr>span_price := js ''110 TL''\<rparr>))"

text \<open>
  The check of one listed product succeeds on a store when a positive price comes back and
  the store still has the product, so that the write goes through.
\<close>

definition succeeds :: "(jsstring \<Rightarrow> fetched) \<Rightarrow> database \<Rightarrow> product \<times> user \<Rightarrow> bool" where
  "succeeds fetch db pu \<longleftrightarrow>
     gt0 (sp_price (scrapePrice fetch (prod_url (fst pu)))) \<and>
     findProduct (prod_id (fst pu)) db \<noteq> None"

text \<open>What the sweep leaves for one listed product is what the check of that product alone
  would leave.\<close>

definition afterCheck ::
  "(jsstring \<Rightarrow> fetched) \<Rightarrow> database \<Rightarrow> database \<Rightarrow> product \<times> user \<Rightarrow> bool" where
  "afterCheck fetch db db' pu \<longleftrightarrow>
     (let i = prod_id (fst pu); r = scrapePrice fetch (prod_url (fst pu)) in
      if succeeds fetch db pu then
        map_option currentPrice (findProduct i db') = Some (sp_price r) \<and>
        map_option prod_currency (findProduct i db') = Some (sp_currency r) \<and>
        historyOf i db' = historyOf i db @ [\<lparr>ph_productId = i, ph_price = sp_price r\<rparr>]
      else findProduct i db' = findProduct i db \<and> historyOf i db' = historyOf i db)"

text \<open>A web that is down: every URL answers 503, with a body that carries a title and a
  price.\<close>

definition downWeb :: "jsstring \<Rightarrow> fetched" where
  "downWeb url =
     Response False (js ''Service Unavailable'')
       (blankPage\<lparr>meta_og_title := Some (js ''Shoe''),
                  meta_og_price_amount := Some (js ''90'')\<rparr>)"

text \<open>A page whose JSON-LD product is priced in USD and whose meta tag names EUR.\<close>

definition usdEurPage :: page where
  "usdEurPage =
     blankPage\<lparr>ldJson :=
         [Some (Single (Some
            \<lparr>item_type = Some (js ''Product''), item_name = Some (js ''Shoe''),
             item_offers = Some (Offer
               \<lparr>offer_price = Some (PriceStr (js ''12.99'')),
                offer_priceCurrency = Some (js ''USD'')\<rparr>)\<rparr>))],
       meta_product_price_currency := Some (js ''EUR'')\<rparr>"





section \<open>Currency codes\<close>

lemma js_codes_distinct:
  "js ''TRY'' \<noteq> lira" "js ''USD'' \<noteq> lira" "js ''EUR'' \<noteq> lira"
  "js ''TRY'' \<noteq> dollar" "js ''USD'' \<noteq> dollar" "js ''EUR'' \<noteq> dollar"
  "js ''TRY'' \<noteq> euro" "js ''USD'' \<noteq> euro" "js ''EUR'' \<noteq> euro"
  "js ''TRY'' \<noteq> js ''USD''" "js ''TRY'' \<noteq> js ''EUR''" "js ''USD'' \<noteq> js ''EUR''"
  by (simp_all add: js_def lira_def dollar_def euro_def)

text \<open>
  C8. The currency mapping sends \<open>TRY\<close>, \<open>USD\<close> and \<open>EUR\<close> to the lira, dollar and euro
  signs and leaves every other string as it is; so mapping twice is mapping once, and the lira
  sign, already a symbol, stays.
\<close>

theorem mapCurrency_idempotent:
  "mapCurrency (js ''TRY'') = lira \<and> mapCurrency (js ''USD'') = dollar \<and>
   mapCurrency (js ''EUR'') = euro \<and>
   (c \<noteq> js ''TRY'' \<and> c \<noteq> js ''USD'' \<and> c \<noteq> js ''EUR'' \<longrightarrow> mapCurrency c = c) \<and>
   mapCurrency (mapCurrency c) = mapCurrency c \<and>
   mapCurrency (mapCurrency (js ''TRY'')) = lira \<and> mapCurrency lira = lira"
  using js_codes_distinct by (simp add: mapCurrency_def)

theorem mapCurrency_idempotent_witness:
  "js ''GBP'' \<noteq> js ''TRY'' \<and> js ''GBP'' \<noteq> js ''USD'' \<and> js ''GBP'' \<noteq> js ''EUR'' \<and>
   mapCurrency (js ''GBP'') = js ''GBP'' \<and>
   mapCurrency (mapCurrency (js ''GBP'')) = mapCurrency (js ''GBP'')"
  using mapCurrency_idempotent [of "js ''GBP''"] by (simp add: js_def)

section \<open>Number values\<close>

lemma two_powi_pos: "0 < (2::rat) powi k"
  by simp

lemma two_powi_less_iff: "(2::rat) powi a < 2 powi b \<longleftrightarrow> a < b"
proof
  assume "(2::rat) powi a < 2 powi b"
  show "a < b"
  proof (rule ccontr)
    assume "\<not> a < b"
    then have "b \<le> a" by simp
    then have "(2::rat) powi b \<le> 2 powi a"
      by (intro power_int_increasing) simp_all
    with \<open>(2::rat) powi a < 2 powi b\<close> show False by simp
  qed
next
  assume "a < b"
  then show "(2::rat) powi a < 2 powi b"
    by (intro power_int_strict_increasing) simp_all
qed

lemma two_powi_le_iff: "(2::rat) powi a \<le> 2 powi b \<longleftrightarrow> a \<le> b"
  using two_powi_less_iff [of b a] by (auto simp: not_less [symmetric])

lemma two_powi_Suc: "(2::rat) powi (k + 1) = 2 * 2 powi k"
  by (simp add: power_int_add)

lemma ilog2_bounds:
  assumes "0 < r"
  shows "2 powi ilog2 r \<le> r \<and> r < 2 powi (ilog2 r + 1)"
proof -
  obtain a b where q: "quotient_of r = (a, b)" by (cases "quotient_of r")
  then have b: "0 < b" by (rule quotient_of_denom_pos)
  from q have r: "r = of_int a / of_int b" by (rule quotient_of_div)
  with assms b have a: "0 < a"
    by (simp add: zero_less_divide_iff)
  let ?la = "bitlen a" and ?lb = "bitlen b"
  from bitlen_bounds [OF a] have a1: "2 ^ nat (?la - 1) \<le> a" and a2: "a < 2 ^ nat ?la"
    by simp_all
  from bitlen_bounds [OF b] have b1: "2 ^ nat (?lb - 1) \<le> b" and b2: "b < 2 ^ nat ?lb"
    by simp_all
  from a have la: "1 \<le> ?la" by (simp add: bitlen_alt_def)
  from b have lb: "1 \<le> ?lb" by (simp add: bitlen_alt_def)
  have ra1: "(2::rat) powi (?la - 1) \<le> of_int a"
  proof -
    have "(of_int (2 ^ nat (?la - 1)) :: rat) \<le> of_int a"
      using a1 by (simp only: of_int_le_iff)
    with la show ?thesis by (simp add: power_int_nonneg_exp)
  qed
  have ra2: "(of_int a :: rat) < 2 powi ?la"
  proof -
    have "(of_int a :: rat) < of_int (2 ^ nat ?la)"
      using a2 by (simp only: of_int_less_iff)
    with la show ?thesis by (simp add: power_int_nonneg_exp)
  qed
  have rb1: "(2::rat) powi (?lb - 1) \<le> of_int b"
  proof -
    have "(of_int (2 ^ nat (?lb - 1)) :: rat) \<le> of_int b"
      using b1 by (simp only: of_int_le_iff)
    with lb show ?thesis by (simp add: power_int_nonneg_exp)
  qed
  have rb2: "(of_int b :: rat) < 2 powi ?lb"
  proof -
    have "(of_int b :: rat) < of_int (2 ^ nat ?lb)"
      using b2 by (simp only: of_int_less_iff)
    with lb show ?thesis by (simp add: power_int_nonneg_exp)
  qed
  have bp: "(0::rat) < of_int b" using b by simp
  let ?k = "?la - ?lb"
  have lo: "2 powi (?k - 1) \<le> r"
  proof -
    have "2 powi (?k - 1) * (of_int b :: rat) \<le> 2 powi (?k - 1) * 2 powi ?lb"
      using rb2 by (intro mult_left_mono) simp_all
    also have "\<dots> = 2 powi (?la - 1)"
      by (simp add: power_int_add [symmetric])
    also have "\<dots> \<le> of_int a" by (rule ra1)
    finally show ?thesis
      using bp by (simp add: r pos_le_divide_eq)
  qed
  have hi: "r < 2 powi (?k + 1)"
  proof -
    have "(of_int a :: rat) < 2 powi ?la" by (rule ra2)
    also have "\<dots> = 2 powi (?k + 1) * 2 powi (?lb - 1)"
      by (simp add: power_int_add [symmetric])
    also have "\<dots> \<le> 2 powi (?k + 1) * of_int b"
      using rb1 by (intro mult_left_mono) simp_all
    finally show ?thesis
      using bp by (simp add: r pos_divide_less_eq)
  qed
  show ?thesis
  proof (cases "2 powi ?k \<le> r")
    case True
    with hi show ?thesis by (simp add: ilog2_def q)
  next
    case False
    with lo show ?thesis by (simp add: ilog2_def q)
  qed
qed

lemma ilog2_unique:
  assumes "2 powi e \<le> r" and "r < 2 powi (e + 1)"
  shows "ilog2 r = e"
proof -
  have p: "0 < r" by (rule less_le_trans [OF two_powi_pos assms(1)])
  from ilog2_bounds [OF p] have 1: "2 powi ilog2 r \<le> r" and 2: "r < 2 powi (ilog2 r + 1)"
    by simp_all
  from 1 assms(2) have "(2::rat) powi ilog2 r < 2 powi (e + 1)" by simp
  then have "ilog2 r < e + 1" by (simp only: two_powi_less_iff)
  moreover from assms(1) 2 have "(2::rat) powi e < 2 powi (ilog2 r + 1)" by simp
  then have "e < ilog2 r + 1" by (simp only: two_powi_less_iff)
  ultimately show ?thesis by simp
qed

lemma roundHalfEven_of_int: "roundHalfEven (of_int m) = m"
  by (simp add: roundHalfEven_def)

lemma roundHalfEven_ge: "of_int m \<le> x \<Longrightarrow> m \<le> roundHalfEven x"
proof -
  assume "of_int m \<le> x"
  then have "m \<le> \<lfloor>x\<rfloor>" by (simp add: le_floor_iff)
  then show ?thesis by (simp add: roundHalfEven_def Let_def)
qed

lemma roundHalfEven_le: "x \<le> of_int m \<Longrightarrow> roundHalfEven x \<le> m"
proof -
  assume x: "x \<le> of_int m"
  show ?thesis
  proof (cases "x = of_int m")
    case True
    then show ?thesis by (simp add: roundHalfEven_of_int)
  next
    case False
    with x have "x < of_int m" by simp
    then have "\<lfloor>x\<rfloor> < m" by (simp add: floor_less_iff)
    then show ?thesis by (simp add: roundHalfEven_def Let_def)
  qed
qed


lemma numberValue_binade:
  assumes "2 powi k \<le> r" and "r < 2 powi (k + 1)" and "- 1022 \<le> k" and "k < 1024"
  shows "numberValue r = PosInf \<and> k = 1023 \<or>
         (\<exists>v. numberValue r = Num v \<and> 2 powi k \<le> v \<and> v \<le> 2 powi (k + 1))"
proof -
  have p: "0 < r" by (rule less_le_trans [OF two_powi_pos assms(1)])
  from assms(1,2) have e: "ilog2 r = k" by (rule ilog2_unique)
  let ?ulp = "(2::rat) powi (k - 52)"
  let ?n = "roundHalfEven (r / ?ulp)"
  let ?v = "of_int ?n * ?ulp"
  have u: "0 < ?ulp" by simp
  have k52: "(2::rat) powi k = of_int (2 ^ 52) * ?ulp"
    using power_int_add [of "2::rat" "52" "k - 52"] by simp
  have k53: "(2::rat) powi (k + 1) = of_int (2 ^ 53) * ?ulp"
    using power_int_add [of "2::rat" "53" "k - 52"] by (simp add: add.commute)
  have "of_int (2 ^ 52) \<le> r / ?ulp"
    using assms(1) u by (simp add: k52 pos_le_divide_eq)
  then have n1: "2 ^ 52 \<le> ?n" by (rule roundHalfEven_ge)
  have "r / ?ulp \<le> of_int (2 ^ 53)"
    using assms(2) u by (simp add: k53 pos_divide_le_eq)
  then have n2: "?n \<le> 2 ^ 53" by (rule roundHalfEven_le)
  have v1: "2 powi k \<le> ?v"
  proof -
    have "(of_int (2 ^ 52) :: rat) \<le> of_int ?n" using n1 by (simp only: of_int_le_iff)
    then show ?thesis unfolding k52 using u by (intro mult_right_mono) simp_all
  qed
  have v2: "?v \<le> 2 powi (k + 1)"
  proof -
    have "(of_int ?n :: rat) \<le> of_int (2 ^ 53)" using n2 by (simp only: of_int_le_iff)
    then show ?thesis unfolding k53 using u by (intro mult_right_mono) simp_all
  qed
  have nv: "numberValue r = (if 2 ^ 1024 \<le> ?v then PosInf else Num ?v)"
    using p assms(3) by (simp add: numberValue_def e Let_def max_def)
  show ?thesis
  proof (cases "(2::rat) ^ 1024 \<le> ?v")
    case True
    with v2 have "(2::rat) powi 1024 \<le> 2 powi (k + 1)" by simp
    then have "1024 \<le> k + 1" by (simp only: two_powi_le_iff)
    with assms(4) True nv show ?thesis by simp
  next
    case False
    with nv v1 v2 show ?thesis by simp
  qed
qed

lemma numberValue_nonneg_cases:
  "numberValue r = PosInf \<or> (\<exists>v. numberValue r = Num v \<and> 0 \<le> v)"
proof (cases "r \<le> 0")
  case True
  then show ?thesis by (simp add: numberValue_def)
next
  case False
  let ?ulp = "(2::rat) powi (max (ilog2 r) (- 1022) - 52)"
  have "0 \<le> r / ?ulp" using False by simp
  then have "0 \<le> roundHalfEven (r / ?ulp)"
    using roundHalfEven_ge [of 0 "r / ?ulp"] by simp
  then have "0 \<le> (of_int (roundHalfEven (r / ?ulp)) :: rat) * ?ulp" by simp
  with False show ?thesis by (simp add: numberValue_def Let_def)
qed

lemma numberValue_of_nat:
  assumes "n < 2 ^ 53"
  shows "numberValue (of_nat n) = Num (of_nat n)"
proof (cases "n = 0")
  case True
  then show ?thesis by (simp add: numberValue_def)
next
  case False
  let ?r = "of_nat n :: rat"
  have p: "0 < ?r" using False by simp
  let ?e = "ilog2 ?r"
  from ilog2_bounds [OF p] have b1: "2 powi ?e \<le> ?r" and b2: "?r < 2 powi (?e + 1)"
    by simp_all
  have "(1::rat) \<le> ?r" using False by (simp add: Suc_leI)
  with b2 have "(2::rat) powi 0 < 2 powi (?e + 1)" by simp
  then have "0 < ?e + 1" by (simp only: two_powi_less_iff)
  then have e0: "0 \<le> ?e" by simp
  have "?r < 2 ^ 53" using assms by (metis of_nat_less_iff of_nat_numeral of_nat_power)
  with b1 have "(2::rat) powi ?e < 2 powi 53" by simp
  then have e53: "?e < 53" by (simp only: two_powi_less_iff)
  let ?ulp = "(2::rat) powi (?e - 52)"
  have u: "0 < ?ulp" by simp
  have "?ulp * 2 powi (52 - ?e) = 1"
    by (simp add: power_int_add [symmetric])
  then have inv: "1 / ?ulp = 2 powi (52 - ?e)"
    using u by (simp add: field_simps)
  have "2 powi (52 - ?e) = (of_int (2 ^ nat (52 - ?e)) :: rat)"
    using e53 by (simp add: power_int_nonneg_exp)
  with inv have "?r / ?ulp = of_int (int n * 2 ^ nat (52 - ?e))"
    by (simp add: field_simps)
  then have n: "roundHalfEven (?r / ?ulp) = int n * 2 ^ nat (52 - ?e)"
    by (simp only: roundHalfEven_of_int)
  have v: "of_int (roundHalfEven (?r / ?ulp)) * ?ulp = ?r"
    using \<open>?r / ?ulp = of_int (int n * 2 ^ nat (52 - ?e))\<close> u
    by (simp only: n [symmetric]) (simp add: n field_simps)
  have "?r < 2 ^ 1024"
    using \<open>?r < 2 ^ 53\<close> by (rule less_trans) simp
  with p e0 v show ?thesis
    by (simp add: numberValue_def Let_def max_def)
qed

lemma numberValue_pos:
  assumes "2 powi (- 1074) \<le> r"
  shows "gt0 (numberValue r)"
proof -
  have p: "0 < r" by (rule less_le_trans [OF two_powi_pos assms])
  let ?e = "max (ilog2 r) (- 1022)"
  let ?ulp = "(2::rat) powi (?e - 52)"
  let ?n = "roundHalfEven (r / ?ulp)"
  have u: "0 < ?ulp" by simp
  have "?ulp \<le> r"
  proof (cases "- 1022 \<le> ilog2 r")
    case True
    then have "?ulp \<le> 2 powi ilog2 r"
      by (simp add: max_def two_powi_le_iff)
    also have "\<dots> \<le> r" using ilog2_bounds [OF p] by simp
    finally show ?thesis .
  next
    case False
    then have "?ulp = 2 powi (- 1074)" by (simp add: max_def)
    with assms show ?thesis by simp
  qed
  then have "of_int 1 \<le> r / ?ulp" using u by (simp add: pos_le_divide_eq)
  then have "1 \<le> ?n" by (rule roundHalfEven_ge)
  then have "0 < (of_int ?n :: rat) * ?ulp" using u by (simp add: zero_less_mult_iff)
  with p show ?thesis by (simp add: numberValue_def Let_def)
qed

lemma numberValue_0 [simp]: "numberValue 0 = Num 0"
  by (simp add: numberValue_def)

lemma numberValue_numeral [simp]:
  "numeral k < (2::nat) ^ 53 \<Longrightarrow> numberValue (numeral k) = Num (numeral k)"
  using numberValue_of_nat [of "numeral k"] by simp

lemma numberValue_not_NaN [simp]: "numberValue r \<noteq> NaN"
  using numberValue_nonneg_cases [of r] by auto

lemma gt0_numberValue [simp]: "1 \<le> r \<Longrightarrow> gt0 (numberValue r)"
proof (rule numberValue_pos)
  assume "1 \<le> r"
  have "(2::rat) powi (- 1074) \<le> 2 powi 0" by (simp only: two_powi_le_iff)
  with \<open>1 \<le> r\<close> show "2 powi (- 1074) \<le> r" by simp
qed

lemma numberValue_not_0 [simp]: "1 \<le> r \<Longrightarrow> numberValue r \<noteq> Num 0"
proof
  assume r: "1 \<le> r" and z: "numberValue r = Num 0"
  from r have "gt0 (numberValue r)" by (rule gt0_numberValue)
  then show False by (simp add: z)
qed


section \<open>Titles\<close>

lemmas string_defs = js_def lira_def euro_def dollar_def isWhiteSpace_def trim_def isDigit_def

lemmas step_defs =
  strategies1to4_def strategyChain_def initial_def metaTags_def selectors_def amazon_def
  trendyol_def titleFallback_def priceFallback_def orElse_def truthy_def isZero_def Let_def

lemma title_scanPrices: "title (scanPrices es st) = title st"
  by (induction es) (simp_all add: Let_def)

lemma title_priceFallback: "title (priceFallback pg st) = title st"
  by (simp add: priceFallback_def title_scanPrices)

lemma length_js: "length (js s) = length s"
  by (simp add: js_def)

text \<open>
  C7. On a fetched page the result carries the title of the chain, truncated. When steps 1 to
  4 leave the title empty, the chain takes the first heading, else the document title, else
  \<open>Unknown Product\<close>. A title of more than 100 code units becomes its first 97 followed by
  three periods, 100 in all; a title of at most 100 stays as it is.
\<close>

theorem title_fallback_and_truncation:
  "fetch url = Response True statusText pg \<Longrightarrow>
   (\<exists>p c raw. scrapeProductData fetch url =
      Success (truncateTitle (title (strategyChain url pg))) p c raw) \<and>
   (title (strategies1to4 url pg) = [] \<longrightarrow>
      title (strategyChain url pg) =
        (if trim (h1_first pg) \<noteq> [] then trim (h1_first pg)
         else if trim (title_tag pg) \<noteq> [] then trim (title_tag pg)
         else js ''Unknown Product'')) \<and>
   (100 < length t \<longrightarrow>
      truncateTitle t = take 97 t @ js ''...'' \<and> length (truncateTitle t) = 100) \<and>
   (length t \<le> 100 \<longrightarrow> truncateTitle t = t)"
  by (simp add: scrapeProductData_def result_def strategyChain_def title_priceFallback
      titleFallback_def truncateTitle_def length_js)

theorem title_fallback_and_truncation_witness:
  "serve longTitlePage (js ''http://shop.example/p'') =
     Response True (js ''OK'') longTitlePage \<and>
   title (strategies1to4 (js ''http://shop.example/p'') longTitlePage) = [] \<and>
   title (strategyChain (js ''http://shop.example/p'') longTitlePage) = replicate 150 65 \<and>
   100 < length (replicate 150 (65::nat)) \<and>
   truncateTitle (replicate 150 65) = replicate 97 65 @ js ''...'' \<and>
   length (truncateTitle (replicate 150 65)) = 100 \<and>
   length (js ''Unknown Product'') \<le> 100 \<and>
   truncateTitle (js ''Unknown Product'') = js ''Unknown Product''"
proof -
  let ?u = "js ''http://shop.example/p''"
  have f: "serve longTitlePage ?u = Response True (js ''OK'') longTitlePage"
    by (simp add: serve_def)
  have t0: "title (strategies1to4 ?u longTitlePage) = []"
    by (simp add: longTitlePage_def blankPage_def step_defs string_defs)
  have tr: "trim (title_tag longTitlePage) = replicate 150 65" "trim (h1_first longTitlePage) = []"
    by (simp_all add: longTitlePage_def blankPage_def string_defs)
  have len: "100 < length (replicate 150 (65::nat))" by simp
  have len2: "length (js ''Unknown Product'') \<le> 100" by (simp add: js_def)
  note a = title_fallback_and_truncation
    [where fetch = "serve longTitlePage" and url = ?u and pg = longTitlePage
       and t = "replicate 150 65", OF f]
  note b = title_fallback_and_truncation
    [where fetch = "serve longTitlePage" and url = ?u and pg = longTitlePage
       and t = "js ''Unknown Product''", OF f]
  from a t0 tr have "title (strategyChain ?u longTitlePage) = replicate 150 65"
    by simp
  moreover from a len
  have "truncateTitle (replicate 150 65) = take 97 (replicate 150 65) @ js ''...''"
    "length (truncateTitle (replicate 150 65)) = 100" by blast+
  moreover from b len2
  have "truncateTitle (js ''Unknown Product'') = js ''Unknown Product''" by blast
  ultimately show ?thesis using f t0 len len2 by simp
qed

section \<open>The final price scan\<close>

lemmas parse_defs =
  parsePriceText_def keepPriceChars_def parseFloat_def unsignedLiteral_def digitsValue_def
  exponentPart_def signedDigits_def scale10_def parseOffscreen_def cleanPrice_def
  parseWholeFraction_def

lemma scanPrices_find:
  "scanPrices es st =
     (case find (\<lambda>text. gt0 (parsePriceText text))
             (filter (\<lambda>text. \<not> skipped text) (map (\<lambda>e. trim (el_text e)) es)) of
        None \<Rightarrow> st
      | Some text \<Rightarrow>
          st\<lparr>price := parsePriceText text, priceText := text,
             currency := sniffCurrency text (currency st)\<rparr>)"
  by (induction es) (simp_all add: Let_def skipped_def)

lemma find_Some_set: "find P xs = Some x \<Longrightarrow> x \<in> set xs \<and> P x"
  by (induction xs) (auto split: if_splits)

lemma find_append_Some: "find P xs = Some x \<Longrightarrow> find P (xs @ ys) = Some x"
  by (induction xs) (simp_all split: if_splits)

lemma gt0_cases: "gt0 x \<longleftrightarrow> x = PosInf \<or> (\<exists>r. x = Num r \<and> 0 < r)"
  by (cases x) simp_all

text \<open>
  C9. The chain ends with the scan, which runs only while the price is still \<open>0\<close>. It looks
  at the elements whose class or id contains \<open>price\<close>, skips a text with a percent sign or
  with fewer than 2 or more than 20 code units, and takes the first text left whose parsed
  value is positive. From that text it sets the price and the raw text, and the currency: the
  dollar sign when the text has one, else the euro sign when the text has one, else the lira
  sign when the text has \<open>TL\<close> or the lira sign, else the currency stays. It does not look at
  the elements after the hit.
\<close>

theorem fallback_scan_first_hit:
  "strategyChain url pg =
     (let st = titleFallback pg (strategies1to4 url pg) in
      if price st = Num 0 then
        (case firstHit (elements pg) of
           None \<Rightarrow> st
         | Some t \<Rightarrow>
             st\<lparr>price := parsePriceText t, priceText := t,
                currency :=
                  (if str_includes t dollar then dollar
                   else if str_includes t euro then euro
                   else if str_includes t (js ''TL'') \<or> str_includes t lira then lira
                   else currency st)\<rparr>)
      else st) \<and>
   (firstHit els = Some hit \<longrightarrow>
      gt0 (parsePriceText hit) \<and>
      (parsePriceText hit = PosInf \<or> (\<exists>r. parsePriceText hit = Num r \<and> 0 < r)) \<and>
      \<not> str_includes hit (js ''%'') \<and>
      2 \<le> length hit \<and> length hit \<le> 20 \<and>
      (\<exists>e \<in> set els. priceLike e \<and> hit = trim (el_text e)) \<and>
      firstHit (els @ rest) = Some hit)"
proof -
  have 1: "strategyChain url pg =
     (let st = titleFallback pg (strategies1to4 url pg) in
      if price st = Num 0 then
        (case firstHit (elements pg) of
           None \<Rightarrow> st
         | Some t \<Rightarrow>
             st\<lparr>price := parsePriceText t, priceText := t,
                currency :=
                  (if str_includes t dollar then dollar
                   else if str_includes t euro then euro
                   else if str_includes t (js ''TL'') \<or> str_includes t lira then lira
                   else currency st)\<rparr>)
      else st)"
    by (simp add: strategyChain_def priceFallback_def scanPrices_find firstHit_def Let_def
        isZero_def sniffCurrency_def split: option.split)
  have 2: "gt0 (parsePriceText hit) \<and>
      (parsePriceText hit = PosInf \<or> (\<exists>r. parsePriceText hit = Num r \<and> 0 < r)) \<and>
      \<not> str_includes hit (js ''%'') \<and>
      2 \<le> length hit \<and> length hit \<le> 20 \<and>
      (\<exists>e \<in> set els. priceLike e \<and> hit = trim (el_text e)) \<and>
      firstHit (els @ rest) = Some hit" if h: "firstHit els = Some hit"
  proof -
    from find_Some_set [OF h [unfolded firstHit_def]]
    have a: "gt0 (parsePriceText hit)" and b: "\<not> skipped hit"
      and c: "\<exists>e \<in> set els. priceLike e \<and> hit = trim (el_text e)"
      by auto
    from a have d: "parsePriceText hit = PosInf \<or> (\<exists>r. parsePriceText hit = Num r \<and> 0 < r)"
      by (simp add: gt0_cases)
    from h have e: "firstHit (els @ rest) = Some hit"
      by (simp add: firstHit_def find_append_Some)
    from b have f: "\<not> str_includes hit (js ''%'')" "2 \<le> length hit" "length hit \<le> 20"
      by (simp_all add: skipped_def)
    from a c d e f show ?thesis by blast
  qed
  from 1 2 show ?thesis by blast
qed

lemma symbolPage_before:
  "titleFallback (symbolPage t) (strategies1to4 (js ''http://shop.example/p'') (symbolPage t)) =
     \<lparr>title = js ''Unknown Product'', price = Num 0, priceText = [], currency = [36]\<rparr>"
  by (simp add: symbolPage_def blankPage_def step_defs mapCurrency_def string_defs)

lemma symbolPage_firstHit:
  "\<not> skipped (trim t) \<Longrightarrow> gt0 (parsePriceText (trim t)) \<Longrightarrow>
   firstHit (elements (symbolPage t)) = Some (trim t)"
  by (simp add: firstHit_def symbolPage_def blankPage_def priceLike_def attrContains_def js_def)

theorem fallback_scan_first_hit_witness:
  "firstHit (elements badgePage) = Some (js ''$19.99'') \<and>
   strategyChain (js ''http://shop.example/p'') badgePage =
     \<lparr>title = js ''Unknown Product'', price = numberValue 19.99, priceText = js ''$19.99'',
      currency = [36]\<rparr> \<and>
   gt0 (parsePriceText (js ''$19.99'')) \<and>
   firstHit (elements badgePage @ [\<lparr>el_class = Some (js ''price''), el_id = None,
      el_text = js ''1''\<rparr>]) = Some (js ''$19.99'') \<and>
   strategyChain (js ''http://shop.example/p'') (symbolPage (js ''19,99 '' @ [8364])) =
     \<lparr>title = js ''Unknown Product'', price = numberValue 19.99,
      priceText = js ''19,99 '' @ [8364], currency = [8364]\<rparr> \<and>
   strategyChain (js ''http://shop.example/p'') (symbolPage (js ''24.99 TL'')) =
     \<lparr>title = js ''Unknown Product'', price = numberValue 24.99, priceText = js ''24.99 TL'',
      currency = [8378]\<rparr> \<and>
   strategyChain (js ''http://shop.example/p'') (symbolPage (8378 # js ''24.99'')) =
     \<lparr>title = js ''Unknown Product'', price = numberValue 24.99,
      priceText = 8378 # js ''24.99'', currency = [8378]\<rparr> \<and>
   strategyChain (js ''http://shop.example/p'') (symbolPage (js ''24.99'')) =
     \<lparr>title = js ''Unknown Product'', price = numberValue 24.99, priceText = js ''24.99'',
      currency = [36]\<rparr>"
proof -
  let ?u = "js ''http://shop.example/p''"
  let ?one = "[\<lparr>el_class = Some (js ''price''), el_id = None, el_text = js ''1''\<rparr>]"
  have h: "firstHit (elements badgePage) = Some (js ''$19.99'')"
    by (simp add: firstHit_def badgePage_def blankPage_def priceLike_def attrContains_def
        skipped_def parse_defs string_defs)
  have st: "titleFallback badgePage (strategies1to4 ?u badgePage) =
      \<lparr>title = js ''Unknown Product'', price = Num 0, priceText = [], currency = [8378]\<rparr>"
    by (simp add: badgePage_def blankPage_def step_defs string_defs)
  have p: "parsePriceText (js ''$19.99'') = numberValue 19.99"
    "parsePriceText (js ''19,99 '' @ [8364]) = numberValue 19.99"
    "parsePriceText (js ''24.99 TL'') = numberValue 24.99"
    "parsePriceText (8378 # js ''24.99'') = numberValue 24.99"
    "parsePriceText (js ''24.99'') = numberValue 24.99"
    by (simp_all add: parse_defs string_defs)
  have tr: "trim (js ''19,99 '' @ [8364]) = js ''19,99 '' @ [8364]"
    "trim (js ''24.99 TL'') = js ''24.99 TL''"
    "trim (8378 # js ''24.99'') = 8378 # js ''24.99''"
    "trim (js ''24.99'') = js ''24.99''"
    by (simp_all add: string_defs)
  have sk: "\<not> skipped (js ''19,99 '' @ [8364])" "\<not> skipped (js ''24.99 TL'')"
    "\<not> skipped (8378 # js ''24.99'')" "\<not> skipped (js ''24.99'')"
    by (simp_all add: skipped_def string_defs)
  have hs: "firstHit (elements (symbolPage (js ''19,99 '' @ [8364]))) =
      Some (js ''19,99 '' @ [8364])"
    "firstHit (elements (symbolPage (js ''24.99 TL''))) = Some (js ''24.99 TL'')"
    "firstHit (elements (symbolPage (8378 # js ''24.99''))) = Some (8378 # js ''24.99'')"
    "firstHit (elements (symbolPage (js ''24.99''))) = Some (js ''24.99'')"
    using symbolPage_firstHit [of "js ''19,99 '' @ [8364]"]
      symbolPage_firstHit [of "js ''24.99 TL''"] symbolPage_firstHit [of "8378 # js ''24.99''"]
      symbolPage_firstHit [of "js ''24.99''"]
    by (simp_all add: tr sk p)
  have inc: "str_includes (js ''$19.99'') dollar"
    "\<not> str_includes (js ''19,99 '' @ [8364]) dollar" "str_includes (js ''19,99 '' @ [8364]) euro"
    "\<not> str_includes (js ''24.99 TL'') dollar" "\<not> str_includes (js ''24.99 TL'') euro"
    "str_includes (js ''24.99 TL'') (js ''TL'')"
    "\<not> str_includes (8378 # js ''24.99'') dollar" "\<not> str_includes (8378 # js ''24.99'') euro"
    "\<not> str_includes (8378 # js ''24.99'') (js ''TL'')" "str_includes (8378 # js ''24.99'') lira"
    "\<not> str_includes (js ''24.99'') dollar" "\<not> str_includes (js ''24.99'') euro"
    "\<not> str_includes (js ''24.99'') (js ''TL'')" "\<not> str_includes (js ''24.99'') lira"
    by (simp_all add: string_defs)
  have sym: "dollar = [36]" "euro = [8364]" "lira = [8378]"
    by (simp_all add: string_defs)
  note a = fallback_scan_first_hit
    [where url = ?u and pg = badgePage and els = "elements badgePage"
       and hit = "js ''$19.99''" and rest = ?one]
  from a h st p(1) inc(1) have 1: "strategyChain ?u badgePage =
     \<lparr>title = js ''Unknown Product'', price = numberValue 19.99, priceText = js ''$19.99'',
      currency = [36]\<rparr>"
    by (simp add: sym)
  from a h have 2: "gt0 (parsePriceText (js ''$19.99''))"
    "firstHit (elements badgePage @ ?one) = Some (js ''$19.99'')"
    by blast+
  note b = fallback_scan_first_hit
    [where url = ?u and pg = "symbolPage (js ''19,99 '' @ [8364])" and els = "[]"
       and hit = "[]" and rest = "[]"]
  from b hs(1) p(2) inc(2,3) have 3:
    "strategyChain ?u (symbolPage (js ''19,99 '' @ [8364])) =
     \<lparr>title = js ''Unknown Product'', price = numberValue 19.99,
      priceText = js ''19,99 '' @ [8364], currency = [8364]\<rparr>"
    by (simp add: symbolPage_before sym)
  note c = fallback_scan_first_hit
    [where url = ?u and pg = "symbolPage (js ''24.99 TL'')" and els = "[]"
       and hit = "[]" and rest = "[]"]
  from c hs(2) p(3) inc(4,5,6) have 4:
    "strategyChain ?u (symbolPage (js ''24.99 TL'')) =
     \<lparr>title = js ''Unknown Product'', price = numberValue 24.99, priceText = js ''24.99 TL'',
      currency = [8378]\<rparr>"
    by (simp add: symbolPage_before sym)
  note d = fallback_scan_first_hit
    [where url = ?u and pg = "symbolPage (8378 # js ''24.99'')" and els = "[]"
       and hit = "[]" and rest = "[]"]
  from d hs(3) p(4) inc(7,8,9,10) have 5:
    "strategyChain ?u (symbolPage (8378 # js ''24.99'')) =
     \<lparr>title = js ''Unknown Product'', price = numberValue 24.99,
      priceText = 8378 # js ''24.99'', currency = [8378]\<rparr>"
    by (simp add: symbolPage_before sym)
  note e = fallback_scan_first_hit
    [where url = ?u and pg = "symbolPage (js ''24.99'')" and els = "[]"
       and hit = "[]" and rest = "[]"]
  from e hs(4) p(5) inc(11,12,13,14) have 6:
    "strategyChain ?u (symbolPage (js ''24.99'')) =
     \<lparr>title = js ''Unknown Product'', price = numberValue 24.99, priceText = js ''24.99'',
      currency = [36]\<rparr>"
    by (simp add: symbolPage_before sym)
  from h 1 2 3 4 5 6 show ?thesis by blast
qed

section \<open>The handlers\<close>

lemmas db_defs =
  findFirst_def findProduct_def historyOf_def product_update_def priceHistory_deleteMany_def
  product_delete_def

lemma find_None_conv: "find P xs = None \<longleftrightarrow> (\<forall>x \<in> set xs. \<not> P x)"
  by (induction xs) simp_all

lemma find_filter_other:
  "j \<noteq> i \<Longrightarrow> find (\<lambda>p. prod_id p = j) (filter (\<lambda>x. prod_id x \<noteq> i) ps) = find (\<lambda>p. prod_id p = j) ps"
  by (induction ps) auto

text \<open>
  C10. When no product has both the id of the request and the user of the session, the check
  and the delete answer 404 and return the store as it was. When the user owns the product,
  the delete first removes the samples of the product, then the product: the product and its
  samples are gone, every other product and its samples are as before, and a store without
  orphaned samples stays so.
\<close>

theorem check_and_delete_scoped:
  "((\<forall>p \<in> set (products db). \<not> (prod_id p = i \<and> userId p = uid)) \<longrightarrow>
      post_products_id_check fetch uid i db = (notFound, db) \<and>
      delete_products_id uid i db = (notFound, db)) \<and>
   ((\<exists>p \<in> set (products db). prod_id p = i \<and> userId p = uid) \<longrightarrow>
      (\<exists>db2. product_delete i (priceHistory_deleteMany i db) = Some db2 \<and>
         delete_products_id uid i db = (Reply 200 SuccessBody, db2) \<and>
         historyOf i (priceHistory_deleteMany i db) = [] \<and>
         findProduct i db2 = None \<and> historyOf i db2 = [] \<and>
         (\<forall>j. j \<noteq> i \<longrightarrow> findProduct j db2 = findProduct j db \<and> historyOf j db2 = historyOf j db) \<and>
         users db2 = users db \<and>
         (noOrphans db \<longrightarrow> noOrphans db2)))"
proof (intro conjI impI)
  assume a: "\<forall>p \<in> set (products db). \<not> (prod_id p = i \<and> userId p = uid)"
  then have "findFirst i uid db = None"
    by (simp add: findFirst_def find_None_conv)
  then show "post_products_id_check fetch uid i db = (notFound, db)"
    and "delete_products_id uid i db = (notFound, db)"
    by (simp_all add: post_products_id_check_def delete_products_id_def)
next
  assume a: "\<exists>p \<in> set (products db). prod_id p = i \<and> userId p = uid"
  then obtain q where q: "findFirst i uid db = Some q"
    by (cases "findFirst i uid db") (auto simp: findFirst_def find_None_conv)
  from a have ex: "find (\<lambda>p. prod_id p = i) (products db) \<noteq> None"
    by (auto simp: find_None_conv)
  let ?db2 = "db\<lparr>priceHistory := filter (\<lambda>s. ph_productId s \<noteq> i) (priceHistory db),
                 products := filter (\<lambda>x. prod_id x \<noteq> i) (products db)\<rparr>"
  have d: "product_delete i (priceHistory_deleteMany i db) = Some ?db2"
    using ex by (simp add: db_defs)
  have "delete_products_id uid i db = (Reply 200 SuccessBody, ?db2)"
    using q d by (simp add: delete_products_id_def)
  moreover have "historyOf i (priceHistory_deleteMany i db) = []"
    by (simp add: db_defs)
  moreover have "findProduct i ?db2 = None" "historyOf i ?db2 = []"
    by (simp_all add: db_defs find_None_conv)
  moreover have "\<forall>j. j \<noteq> i \<longrightarrow>
      findProduct j ?db2 = findProduct j db \<and> historyOf j ?db2 = historyOf j db"
    by (auto simp: db_defs find_filter_other intro!: filter_cong)
  moreover have "noOrphans db \<longrightarrow> noOrphans ?db2"
    by (fastforce simp: noOrphans_def)
  ultimately show "\<exists>db2. product_delete i (priceHistory_deleteMany i db) = Some db2 \<and>
         delete_products_id uid i db = (Reply 200 SuccessBody, db2) \<and>
         historyOf i (priceHistory_deleteMany i db) = [] \<and>
         findProduct i db2 = None \<and> historyOf i db2 = [] \<and>
         (\<forall>j. j \<noteq> i \<longrightarrow> findProduct j db2 = findProduct j db \<and> historyOf j db2 = historyOf j db) \<and>
         users db2 = users db \<and>
         (noOrphans db \<longrightarrow> noOrphans db2)"
    using d by (intro exI [of _ ?db2]) simp
qed

theorem check_and_delete_scoped_witness:
  "post_products_id_check shopWeb 8 2 shopDb = (notFound, shopDb) \<and>
   delete_products_id 8 2 shopDb = (notFound, shopDb) \<and>
   post_products_id_check shopWeb 7 4 shopDb = (notFound, shopDb) \<and>
   fst (delete_products_id 7 2 shopDb) = Reply 200 SuccessBody \<and>
   map prod_id (products (snd (delete_products_id 7 2 shopDb))) = [1, 3] \<and>
   map ph_productId (priceHistory (snd (delete_products_id 7 2 shopDb))) = [1, 3] \<and>
   findProduct 2 (snd (delete_products_id 7 2 shopDb)) = None \<and>
   historyOf 2 (snd (delete_products_id 7 2 shopDb)) = [] \<and>
   findProduct 3 (snd (delete_products_id 7 2 shopDb)) = findProduct 3 shopDb \<and>
   noOrphans shopDb \<and> noOrphans (snd (delete_products_id 7 2 shopDb))"
proof -
  have n8: "\<forall>p \<in> set (products shopDb). \<not> (prod_id p = 2 \<and> userId p = 8)"
    by (simp add: shopDb_def)
  have n4: "\<forall>p \<in> set (products shopDb). \<not> (prod_id p = 4 \<and> userId p = 7)"
    by (simp add: shopDb_def)
  have o7: "\<exists>p \<in> set (products shopDb). prod_id p = 2 \<and> userId p = 7"
    by (simp add: shopDb_def)
  have no: "noOrphans shopDb"
    by (simp add: noOrphans_def shopDb_def)
  note a = check_and_delete_scoped [where db = shopDb and i = 2 and uid = 8 and fetch = shopWeb]
  note b = check_and_delete_scoped [where db = shopDb and i = 4 and uid = 7 and fetch = shopWeb]
  note c = check_and_delete_scoped [where db = shopDb and i = 2 and uid = 7 and fetch = shopWeb]
  from c o7 obtain db2 where
    d: "delete_products_id 7 2 shopDb = (Reply 200 SuccessBody, db2)"
    and g: "findProduct 2 db2 = None" "historyOf 2 db2 = []"
    and k: "\<forall>j. j \<noteq> 2 \<longrightarrow> findProduct j db2 = findProduct j shopDb \<and>
              historyOf j db2 = historyOf j shopDb"
    and o: "noOrphans shopDb \<longrightarrow> noOrphans db2"
    by blast
  have e: "map prod_id (products (snd (delete_products_id 7 2 shopDb))) = [1, 3]"
    "map ph_productId (priceHistory (snd (delete_products_id 7 2 shopDb))) = [1, 3]"
    by (simp_all add: delete_products_id_def db_defs shopDb_def)
  from k have "findProduct 3 db2 = findProduct 3 shopDb" by simp
  with a b n8 n4 d g o no e show ?thesis by simp
qed

section \<open>The sweep\<close>

lemma find_map_update:
  assumes "\<And>x. prod_id (f x) = prod_id x"
  shows "find (\<lambda>p. prod_id p = j) (map (\<lambda>x. if prod_id x = i then f x else x) ps) =
    (if j = i then map_option f (find (\<lambda>p. prod_id p = i) ps)
     else find (\<lambda>p. prod_id p = j) ps)"
  using assms by (induction ps) auto

lemma product_update_find:
  "product_update i p c db = Some db' \<Longrightarrow>
   findProduct j db' =
     (if j = i then map_option (\<lambda>x. x\<lparr>currentPrice := p, prod_currency := c\<rparr>) (findProduct i db)
      else findProduct j db)"
  by (auto simp: product_update_def findProduct_def find_map_update split: if_splits)

lemma product_update_history:
  "product_update i p c db = Some db' \<Longrightarrow>
   historyOf j db' =
     (if j = i then historyOf i db @ [\<lparr>ph_productId = i, ph_price = p\<rparr>] else historyOf j db)"
  by (auto simp: product_update_def historyOf_def split: if_splits)

lemma checkOne_fails: "\<not> succeeds fetch (sw_db st) pu \<Longrightarrow> checkOne fetch pu st = st"
  by (auto simp: checkOne_def succeeds_def product_update_def Let_def)

lemma checkOne_succeeds:
  assumes "succeeds fetch (sw_db st) pu"
  shows "\<exists>db'. product_update (prod_id (fst pu)) (sp_price (scrapePrice fetch (prod_url (fst pu))))
            (sp_currency (scrapePrice fetch (prod_url (fst pu)))) (sw_db st) = Some db' \<and>
          sw_db (checkOne fetch pu st) = db' \<and>
          updatedCount (checkOne fetch pu st) = updatedCount st + 1"
  using assms by (auto simp: checkOne_def succeeds_def product_update_def Let_def)

lemma checkOne_other:
  assumes "prod_id (fst pu) \<noteq> j"
  shows "findProduct j (sw_db (checkOne fetch pu st)) = findProduct j (sw_db st)"
    and "historyOf j (sw_db (checkOne fetch pu st)) = historyOf j (sw_db st)"
proof -
  show "findProduct j (sw_db (checkOne fetch pu st)) = findProduct j (sw_db st)"
  proof (cases "succeeds fetch (sw_db st) pu")
    case True
    from checkOne_succeeds [OF True] assms show ?thesis
      by (auto simp: product_update_find)
  next
    case False
    then show ?thesis by (simp add: checkOne_fails)
  qed
  show "historyOf j (sw_db (checkOne fetch pu st)) = historyOf j (sw_db st)"
  proof (cases "succeeds fetch (sw_db st) pu")
    case True
    from checkOne_succeeds [OF True] assms show ?thesis
      by (auto simp: product_update_history)
  next
    case False
    then show ?thesis by (simp add: checkOne_fails)
  qed
qed

lemma checkOne_exists:
  "findProduct j (sw_db (checkOne fetch pu st)) = None \<longleftrightarrow> findProduct j (sw_db st) = None"
proof (cases "succeeds fetch (sw_db st) pu")
  case True
  from checkOne_succeeds [OF True] show ?thesis
    by (auto simp: product_update_find split: if_splits)
next
  case False
  then show ?thesis by (simp add: checkOne_fails)
qed

lemma succeeds_checkOne:
  "succeeds fetch (sw_db (checkOne fetch pu st)) qu = succeeds fetch (sw_db st) qu"
  by (simp add: succeeds_def checkOne_exists)

lemma sweep_other:
  "j \<notin> set (map (\<lambda>pu. prod_id (fst pu)) ps) \<Longrightarrow>
   findProduct j (sw_db (sweep fetch ps st)) = findProduct j (sw_db st) \<and>
   historyOf j (sw_db (sweep fetch ps st)) = historyOf j (sw_db st)"
proof (induction ps arbitrary: st)
  case Nil
  then show ?case by simp
next
  case (Cons pu ps)
  then have "prod_id (fst pu) \<noteq> j" and "j \<notin> set (map (\<lambda>pu. prod_id (fst pu)) ps)"
    by auto
  with Cons.IH [of "checkOne fetch pu st"] show ?case
    by (simp add: checkOne_other)
qed

lemma sweep_count:
  "updatedCount (sweep fetch ps st) =
   updatedCount st + length (filter (succeeds fetch (sw_db st)) ps)"
proof (induction ps arbitrary: st)
  case Nil
  then show ?case by simp
next
  case (Cons pu ps)
  have "filter (succeeds fetch (sw_db (checkOne fetch pu st))) ps =
        filter (succeeds fetch (sw_db st)) ps"
    by (rule filter_cong) (simp_all add: succeeds_checkOne)
  moreover have "updatedCount (checkOne fetch pu st) =
      updatedCount st + (if succeeds fetch (sw_db st) pu then 1 else 0)"
    using checkOne_succeeds [of fetch st pu] by (auto simp: checkOne_fails)
  ultimately show ?case
    using Cons.IH [of "checkOne fetch pu st"] by simp
qed

lemma afterCheck_checkOne: "afterCheck fetch (sw_db st) (sw_db (checkOne fetch pu st)) pu"
proof (cases "succeeds fetch (sw_db st) pu")
  case True
  then have "findProduct (prod_id (fst pu)) (sw_db st) \<noteq> None"
    by (simp add: succeeds_def)
  with checkOne_succeeds [OF True] True show ?thesis
    by (auto simp: afterCheck_def Let_def product_update_find product_update_history)
next
  case False
  then show ?thesis by (simp add: afterCheck_def checkOne_fails Let_def)
qed

lemma afterCheck_cong:
  assumes "findProduct (prod_id (fst pu)) a = findProduct (prod_id (fst pu)) b"
    and "historyOf (prod_id (fst pu)) a = historyOf (prod_id (fst pu)) b"
    and "findProduct (prod_id (fst pu)) a' = findProduct (prod_id (fst pu)) b'"
    and "historyOf (prod_id (fst pu)) a' = historyOf (prod_id (fst pu)) b'"
  shows "afterCheck fetch a a' pu = afterCheck fetch b b' pu"
  using assms by (auto simp: afterCheck_def succeeds_def Let_def)

lemma sweep_afterCheck:
  "distinct (map (\<lambda>pu. prod_id (fst pu)) ps) \<Longrightarrow> pu \<in> set ps \<Longrightarrow>
   afterCheck fetch (sw_db st) (sw_db (sweep fetch ps st)) pu"
proof (induction ps arbitrary: st)
  case Nil
  then show ?case by simp
next
  case (Cons qu ps)
  from Cons.prems have d: "distinct (map (\<lambda>pu. prod_id (fst pu)) ps)"
    and n: "prod_id (fst qu) \<notin> set (map (\<lambda>pu. prod_id (fst pu)) ps)"
    by simp_all
  show ?case
  proof (cases "pu = qu")
    case True
    from sweep_other [OF n, of fetch "checkOne fetch qu st"]
    have "afterCheck fetch (sw_db st) (sw_db (sweep fetch ps (checkOne fetch qu st))) qu =
          afterCheck fetch (sw_db st) (sw_db (checkOne fetch qu st)) qu"
      by (intro afterCheck_cong) simp_all
    with True show ?thesis by (simp add: afterCheck_checkOne)
  next
    case False
    with Cons.prems have m: "pu \<in> set ps" by simp
    with n have "prod_id (fst qu) \<noteq> prod_id (fst pu)" by auto
    then have "afterCheck fetch (sw_db (checkOne fetch qu st))
                 (sw_db (sweep fetch ps (checkOne fetch qu st))) pu =
               afterCheck fetch (sw_db st) (sw_db (sweep fetch ps (checkOne fetch qu st))) pu"
      by (intro afterCheck_cong) (simp_all add: checkOne_other)
    with Cons.IH [OF d m, of "checkOne fetch qu st"] show ?thesis by simp
  qed
qed

lemma findManyWithUser_succeeds:
  "filter (succeeds fetch db) (findManyWithUser db) =
   filter (\<lambda>pu. gt0 (sp_price (scrapePrice fetch (prod_url (fst pu))))) (findManyWithUser db)"
proof (rule filter_cong [OF refl])
  fix pu assume "pu \<in> set (findManyWithUser db)"
  then have "fst pu \<in> set (products db)"
    by (auto simp: findManyWithUser_def split: option.splits)
  then have "findProduct (prod_id (fst pu)) db \<noteq> None"
    by (auto simp: findProduct_def find_None_conv)
  then show "succeeds fetch db pu = gt0 (sp_price (scrapePrice fetch (prod_url (fst pu))))"
    by (simp add: succeeds_def)
qed

text \<open>
  C5. Over any list of products with distinct ids and from any state, the sweep adds to the
  count the number of listed products whose check succeeds, and leaves for every listed
  product what its own check leaves: the new price, the new currency and one more sample when
  it succeeds, the product and its samples as they were when its fetch, its parse or its
  write fails, whatever happens to the other products. The endpoint reports the number of
  listed products for which a positive price came back.
\<close>

theorem sweep_isolated_and_counted:
  "distinct (map (\<lambda>pu. prod_id (fst pu)) ps) \<Longrightarrow>
   updatedCount (sweep fetch ps st) =
     updatedCount st + length (filter (succeeds fetch (sw_db st)) ps) \<and>
   (\<forall>pu \<in> set ps. afterCheck fetch (sw_db st) (sw_db (sweep fetch ps st)) pu) \<and>
   fst (get_cron_check fetch db outbox) =
     Reply 200 (UpdatedBody (length
       (filter (\<lambda>pu. gt0 (sp_price (scrapePrice fetch (prod_url (fst pu)))))
          (findManyWithUser db))))"
proof (intro conjI ballI)
  show "updatedCount (sweep fetch ps st) =
      updatedCount st + length (filter (succeeds fetch (sw_db st)) ps)"
    by (rule sweep_count)
next
  fix pu assume "distinct (map (\<lambda>pu. prod_id (fst pu)) ps)" "pu \<in> set ps"
  then show "afterCheck fetch (sw_db st) (sw_db (sweep fetch ps st)) pu"
    by (rule sweep_afterCheck)
next
  show "fst (get_cron_check fetch db outbox) =
     Reply 200 (UpdatedBody (length
       (filter (\<lambda>pu. gt0 (sp_price (scrapePrice fetch (prod_url (fst pu)))))
          (findManyWithUser db))))"
    by (simp add: get_cron_check_def Let_def sweep_count findManyWithUser_succeeds)
qed

lemmas scrape_defs = scrapePrice_def scrapeProductData_def result_def errorMessage_def isNaN_def
  truncateTitle_def

lemma shopWeb_prices:
  "scrapePrice shopWeb (js ''https://a.example/1'') =
     \<lparr>sp_price = Num 90, sp_title = js ''Unknown Product'', sp_currency = lira\<rparr>"
  "scrapePrice shopWeb (js ''https://b.example/2'') =
     \<lparr>sp_price = Num 0, sp_title = js ''Unknown Product'', sp_currency = lira\<rparr>"
  "scrapePrice shopWeb (js ''https://c.example/3'') =
     \<lparr>sp_price = Num 110, sp_title = js ''Unknown Product'', sp_currency = lira\<rparr>"
  by (simp_all add: shopWeb_def blankPage_def scrape_defs step_defs parse_defs string_defs
      sniffCurrency_def)

theorem sweep_isolated_and_counted_witness:
  "distinct (map (\<lambda>pu. prod_id (fst pu)) (findManyWithUser shopDb)) \<and>
   scrapeProductData shopWeb (js ''https://b.example/2'') =
     Failure (js ''This operation was aborted'') \<and>
   fst (get_cron_check shopWeb shopDb []) = Reply 200 (UpdatedBody 2) \<and>
   map currentPrice (products (fst (snd (get_cron_check shopWeb shopDb [])))) =
     [Num 90, Num 100, Num 110] \<and>
   map ph_price (priceHistory (fst (snd (get_cron_check shopWeb shopDb [])))) =
     [Num 100, Num 100, Num 100, Num 90, Num 110] \<and>
   updatedCount (sweep shopWeb (findManyWithUser shopDb)
     \<lparr>sw_db = shopDb\<lparr>products := tl (products shopDb)\<rparr>, sw_outbox = [], updatedCount = 0\<rparr>) = 1"
proof -
  let ?ps = "findManyWithUser shopDb"
  let ?st = "\<lparr>sw_db = shopDb, sw_outbox = [], updatedCount = 0\<rparr>"
  let ?st' = "\<lparr>sw_db = shopDb\<lparr>products := tl (products shopDb)\<rparr>, sw_outbox = [],
    updatedCount = 0\<rparr>"
  have d: "distinct (map (\<lambda>pu. prod_id (fst pu)) ?ps)"
    by (simp add: findManyWithUser_def shopDb_def)
  have f: "scrapeProductData shopWeb (js ''https://b.example/2'') =
     Failure (js ''This operation was aborted'')"
    by (simp add: shopWeb_def scrape_defs string_defs)
  have urls: "map prod_url (products shopDb) =
      [js ''https://a.example/1'', js ''https://b.example/2'', js ''https://c.example/3'']"
    by (simp add: shopDb_def)
  have n: "length (filter (\<lambda>pu. gt0 (sp_price (scrapePrice shopWeb (prod_url (fst pu)))))
      ?ps) = 2"
    by (simp add: findManyWithUser_def shopDb_def shopWeb_prices)
  have m: "length (filter (succeeds shopWeb (sw_db ?st')) ?ps) = 1"
    by (simp add: findManyWithUser_def shopDb_def succeeds_def shopWeb_prices findProduct_def)
  note a = sweep_isolated_and_counted
    [where ps = ?ps and st = ?st and fetch = shopWeb and db = shopDb and outbox = "[]", OF d]
  note b = sweep_isolated_and_counted
    [where ps = ?ps and st = ?st' and fetch = shopWeb and db = shopDb and outbox = "[]", OF d]
  have e: "map currentPrice (products (fst (snd (get_cron_check shopWeb shopDb [])))) =
     [Num 90, Num 100, Num 110]"
    "map ph_price (priceHistory (fst (snd (get_cron_check shopWeb shopDb [])))) =
     [Num 100, Num 100, Num 100, Num 90, Num 110]"
    by (simp_all add: get_cron_check_def findManyWithUser_def shopDb_def checkOne_def
        shopWeb_prices db_defs Let_def)
  from a b d f n m e show ?thesis by simp
qed

section \<open>A check that finds no price\<close>

lemma trim_Nil: "trim [] = []"
  by (simp add: trim_def)

lemma blank14: "strategies1to4 url blankPage = initial"
  by (simp add: blankPage_def strategies1to4_def metaTags_def selectors_def amazon_def
      trendyol_def orElse_def truthy_def isZero_def Let_def trim_Nil initial_def)

lemma blank_chain: "strategyChain url blankPage = initial\<lparr>title := js ''Unknown Product''\<rparr>"
  by (simp add: strategyChain_def blank14 titleFallback_def priceFallback_def initial_def isZero_def)
     (simp add: blankPage_def trim_Nil)


lemma blank_scrape:
  "scrapeProductData (serve blankPage) url = Success (js ''Unknown Product'') (Num 0) lira []"
  "scrapePrice (serve blankPage) url =
     \<lparr>sp_price = Num 0, sp_title = js ''Unknown Product'', sp_currency = lira\<rparr>"
proof -
  show a: "scrapeProductData (serve blankPage) url =
      Success (js ''Unknown Product'') (Num 0) lira []"
    by (simp add: serve_def scrapeProductData_def result_def blank_chain initial_def isNaN_def
        truncateTitle_def length_js)
  show "scrapePrice (serve blankPage) url =
     \<lparr>sp_price = Num 0, sp_title = js ''Unknown Product'', sp_currency = lira\<rparr>"
    by (simp add: scrapePrice_def a)
qed

lemma shop1:
  "findFirst 1 7 shopDb =
     Some \<lparr>prod_id = 1, prod_url = js ''https://a.example/1'', prod_title = js ''A'',
           currentPrice = Num 100, prod_currency = lira, userId = 7\<rparr>"
  by (simp add: shopDb_def findFirst_def)

text \<open>
  C1, at the input where the code leaves it. The first product of the store stands at 100
  with one sample. Its page answers 200 and carries no price, so the extraction yields the
  price 0. The manual check then stores the price 0 and adds a sample at 0, and answers 200
  with the product at 0; the sweep, on the same store and the same page, changes nothing.
\<close>

theorem manual_check_stores_zero:
  "scrapeProductData (serve blankPage) (js ''https://a.example/1'') =
     Success (js ''Unknown Product'') (Num 0) lira [] \<and>
   map_option currentPrice (findProduct 1 shopDb) = Some (Num 100) \<and>
   historyOf 1 shopDb = [\<lparr>ph_productId = 1, ph_price = Num 100\<rparr>] \<and>
   map_option currentPrice
     (findProduct 1 (snd (post_products_id_check (serve blankPage) 7 1 shopDb))) =
     Some (Num 0) \<and>
   historyOf 1 (snd (post_products_id_check (serve blankPage) 7 1 shopDb)) =
     [\<lparr>ph_productId = 1, ph_price = Num 100\<rparr>, \<lparr>ph_productId = 1, ph_price = Num 0\<rparr>] \<and>
   (\<exists>p h. fst (post_products_id_check (serve blankPage) 7 1 shopDb) =
      Reply 200 (ProductBody p h) \<and> currentPrice p = Num 0) \<and>
   get_cron_check (serve blankPage) shopDb [] = (Reply 200 (UpdatedBody 0), shopDb, [])"
proof -
  have c: "post_products_id_check (serve blankPage) 7 1 shopDb =
    (Reply 200 (ProductBody
       \<lparr>prod_id = 1, prod_url = js ''https://a.example/1'', prod_title = js ''A'',
        currentPrice = Num 0, prod_currency = lira, userId = 7\<rparr>
       [\<lparr>ph_productId = 1, ph_price = Num 0\<rparr>, \<lparr>ph_productId = 1, ph_price = Num 100\<rparr>]),
     shopDb\<lparr>products :=
         map (\<lambda>x. if prod_id x = 1 then x\<lparr>currentPrice := Num 0, prod_currency := lira\<rparr> else x)
           (products shopDb),
       priceHistory := priceHistory shopDb @ [\<lparr>ph_productId = 1, ph_price = Num 0\<rparr>]\<rparr>)"
    by (simp add: post_products_id_check_def shop1 blank_scrape)
       (simp add: shopDb_def db_defs)
  have s: "get_cron_check (serve blankPage) shopDb [] = (Reply 200 (UpdatedBody 0), shopDb, [])"
    by (simp add: get_cron_check_def findManyWithUser_def checkOne_def blank_scrape shopDb_def)
  show ?thesis
    by (simp add: c s blank_scrape) (simp add: shopDb_def db_defs)
qed

section \<open>A fetch that fails\<close>

text \<open>
  C2 as stated fails. The URL of the first product answers 503. \<open>scrapePrice\<close> turns that
  into the price 0, the title \<open>Unknown Product\<close> and the lira sign, which is also what it
  returns for a page that answers 200 and carries nothing; and the manual check answers 200
  and stores that 0.
\<close>

theorem fetch_failure_zeroed_counterexample:
  "downWeb (js ''https://a.example/1'') =
     Response False (js ''Service Unavailable'')
       (blankPage\<lparr>meta_og_title := Some (js ''Shoe''),
                  meta_og_price_amount := Some (js ''90'')\<rparr>) \<and>
   scrapePrice downWeb (js ''https://a.example/1'') =
     \<lparr>sp_price = Num 0, sp_title = js ''Unknown Product'', sp_currency = lira\<rparr> \<and>
   scrapePrice downWeb (js ''https://a.example/1'') =
     scrapePrice (serve blankPage) (js ''https://a.example/1'') \<and>
   post_products_id_check downWeb 7 1 shopDb =
     post_products_id_check (serve blankPage) 7 1 shopDb \<and>
   map_option currentPrice (findProduct 1 (snd (post_products_id_check downWeb 7 1 shopDb))) =
     Some (Num 0)"
proof -
  have a: "scrapePrice downWeb (js ''https://a.example/1'') =
     \<lparr>sp_price = Num 0, sp_title = js ''Unknown Product'', sp_currency = lira\<rparr>"
    by (simp add: downWeb_def scrapePrice_def scrapeProductData_def)
  have b: "post_products_id_check downWeb 7 1 shopDb =
     post_products_id_check (serve blankPage) 7 1 shopDb"
    by (simp add: post_products_id_check_def shop1 a blank_scrape)
  have c: "map_option currentPrice
      (findProduct 1 (snd (post_products_id_check (serve blankPage) 7 1 shopDb))) = Some (Num 0)"
    by (simp add: post_products_id_check_def shop1 blank_scrape) (simp add: shopDb_def db_defs)
  show ?thesis
    by (simp add: a b c blank_scrape) (simp add: downWeb_def)
qed

text \<open>
  C2, amended. When the fetch is rejected or answers with a status that is not 2xx,
  \<open>scrapeProductData\<close> returns the failure with a message that is not empty; for the status
  the message is made of the status text alone, whatever the body holds. \<open>scrapePrice\<close> then
  returns the price 0, the title \<open>Unknown Product\<close> and the lira sign.
\<close>

theorem fetch_failure_surfaced_then_zeroed:
  "fetch url = Rejected m \<or> fetch url = Response False statusText pg \<Longrightarrow>
   (\<exists>e. scrapeProductData fetch url = Failure e \<and> e \<noteq> []) \<and>
   (fetch url = Response False statusText pg \<longrightarrow>
      scrapeProductData fetch url = Failure (js ''Failed to fetch URL: '' @ statusText)) \<and>
   scrapePrice fetch url =
     \<lparr>sp_price = Num 0, sp_title = js ''Unknown Product'', sp_currency = lira\<rparr>"
  by (auto simp: scrapeProductData_def scrapePrice_def errorMessage_def js_def)

theorem fetch_failure_surfaced_then_zeroed_witness:
  "downWeb (js ''https://a.example/1'') =
     Response False (js ''Service Unavailable'')
       (blankPage\<lparr>meta_og_title := Some (js ''Shoe''),
                  meta_og_price_amount := Some (js ''90'')\<rparr>) \<and>
   scrapeProductData downWeb (js ''https://a.example/1'') =
     Failure (js ''Failed to fetch URL: Service Unavailable'') \<and>
   shopWeb (js ''https://b.example/2'') = Rejected (js ''This operation was aborted'') \<and>
   scrapePrice shopWeb (js ''https://b.example/2'') =
     \<lparr>sp_price = Num 0, sp_title = js ''Unknown Product'', sp_currency = lira\<rparr>"
proof -
  let ?pg = "blankPage\<lparr>meta_og_title := Some (js ''Shoe''),
                  meta_og_price_amount := Some (js ''90'')\<rparr>"
  have d: "downWeb (js ''https://a.example/1'') =
     Response False (js ''Service Unavailable'') ?pg"
    by (simp add: downWeb_def)
  have r: "shopWeb (js ''https://b.example/2'') = Rejected (js ''This operation was aborted'')"
    by (simp add: shopWeb_def js_def)
  note a = fetch_failure_surfaced_then_zeroed
    [where fetch = downWeb and url = "js ''https://a.example/1''"
       and statusText = "js ''Service Unavailable''" and pg = ?pg and m = "[]"]
  note b = fetch_failure_surfaced_then_zeroed
    [where fetch = shopWeb and url = "js ''https://b.example/2''"
       and m = "js ''This operation was aborted''" and statusText = "[]" and pg = blankPage]
  from a d have "scrapeProductData downWeb (js ''https://a.example/1'') =
     Failure (js ''Failed to fetch URL: '' @ js ''Service Unavailable'')"
    by blast
  moreover from b r have "scrapePrice shopWeb (js ''https://b.example/2'') =
     \<lparr>sp_price = Num 0, sp_title = js ''Unknown Product'', sp_currency = lira\<rparr>"
    by blast
  ultimately show ?thesis using d r by (simp add: js_def)
qed

section \<open>Price text with both separators\<close>

lemma serve_result:
  "scrapeProductData (serve pg) url = result (strategyChain url pg)"
  by (simp add: scrapeProductData_def serve_def)

text \<open>
  C3, at the input where the code leaves it. The text \<open>3.871,45\<close> is 3871.45 for the parse
  of Amazon's off-screen price, and 3.871 for the expression that parses the meta tags,
  \<open>span.price\<close>, Trendyol's price and the elements of the final scan: that expression turns
  the first comma into a period and drops no period, so \<open>parseFloat\<close> stops at the second
  period. The texts \<open>12,99\<close> and \<open>1299\<close> are 12.99 and 1299 for both.
\<close>

theorem generic_parse_keeps_periods:
  "parseOffscreen (js ''3.871,45'') = numberValue 3871.45 \<and>
   parsePriceText (js ''3.871,45'') = numberValue 3.871 \<and>
   (\<exists>v. numberValue 3871.45 = Num v \<and> 2048 \<le> v \<and> v \<le> 4096) \<and>
   (\<exists>v. numberValue 3.871 = Num v \<and> 2 \<le> v \<and> v \<le> 4) \<and>
   parsePriceText (js ''12,99'') = numberValue 12.99 \<and>
   parseOffscreen (js ''12,99'') = numberValue 12.99 \<and>
   parsePriceText (js ''1299'') = Num 1299 \<and> parseOffscreen (js ''1299'') = Num 1299 \<and>
   res_price (scrapeProductData
       (serve (blankPage\<lparr>meta_product_price_amount := Some (js ''3.871,45'')\<rparr>))
       (js ''https://shop.example/p'')) = numberValue 3.871 \<and>
   res_price (scrapeProductData (serve (blankPage\<lparr>prc_dsc := js ''3.871,45 TL''\<rparr>))
       (js ''https://www.trendyol.com/p'')) = numberValue 3.871 \<and>
   res_price (scrapeProductData (serve (blankPage\<lparr>a_offscreen := js ''3.871,45 TL''\<rparr>))
       (js ''https://www.amazon.com.tr/p'')) = numberValue 3871.45"
proof -
  have p: "parseOffscreen (js ''3.871,45'') = numberValue 3871.45"
    "parsePriceText (js ''3.871,45'') = numberValue 3.871"
    "parsePriceText (js ''12,99'') = numberValue 12.99"
    "parseOffscreen (js ''12,99'') = numberValue 12.99"
    "parsePriceText (js ''1299'') = Num 1299" "parseOffscreen (js ''1299'') = Num 1299"
    by (simp_all add: parse_defs string_defs)
  have b: "\<exists>v. numberValue 3871.45 = Num v \<and> 2048 \<le> v \<and> v \<le> 4096"
    "\<exists>v. numberValue 3.871 = Num v \<and> 2 \<le> v \<and> v \<le> 4"
    using numberValue_binade [of 11 "3871.45"] numberValue_binade [of 1 "3.871"] by simp_all
  have m: "res_price (scrapeProductData
       (serve (blankPage\<lparr>meta_product_price_amount := Some (js ''3.871,45'')\<rparr>))
       (js ''https://shop.example/p'')) = numberValue 3.871"
    by (simp add: serve_result result_def blankPage_def step_defs p isNaN_def trim_Nil)
       (simp add: js_def)
  have t: "res_price (scrapeProductData (serve (blankPage\<lparr>prc_dsc := js ''3.871,45 TL''\<rparr>))
       (js ''https://www.trendyol.com/p'')) = numberValue 3.871"
    by (simp add: serve_result result_def blankPage_def step_defs isNaN_def trim_Nil)
       (simp add: parse_defs string_defs)
  have o: "res_price (scrapeProductData (serve (blankPage\<lparr>a_offscreen := js ''3.871,45 TL''\<rparr>))
       (js ''https://www.amazon.com.tr/p'')) = numberValue 3871.45"
    by (simp add: serve_result result_def blankPage_def step_defs isNaN_def trim_Nil)
       (simp add: parse_defs string_defs)
  from p b m t o show ?thesis by blast
qed

section \<open>Who writes a field\<close>

lemmas ld_defs =
  itemsOf_def ldItem_def isProduct_def firstOffer_def ldOffer_def priceTruthy_def
  parseFloatOf_def

lemma price_scanPrices: "\<not> isZero (price st) \<Longrightarrow> price (priceFallback pg st) = price st"
  by (simp add: priceFallback_def)

text \<open>
  C4 as stated fails. On a page whose JSON-LD product has the currency \<open>USD\<close> and whose
  \<open>product:price:currency\<close> meta tag says \<open>EUR\<close>, step 1 leaves the dollar sign, step 2
  replaces it by the euro sign, and the result carries the euro sign.
\<close>

theorem meta_currency_overwrites_counterexample:
  "currency (ldBlocks (ldJson usdEurPage) initial) = dollar \<and>
   currency (metaTags usdEurPage (ldBlocks (ldJson usdEurPage) initial)) = euro \<and>
   scrapeProductData (serve usdEurPage) (js ''https://shop.example/p'') =
     Success (js ''Shoe'') (numberValue 12.99) euro [] \<and>
   dollar \<noteq> euro"
proof -
  have l: "ldBlocks (ldJson usdEurPage) initial =
      \<lparr>title = js ''Shoe'', price = numberValue 12.99, priceText = [], currency = dollar\<rparr>"
    by (simp add: usdEurPage_def blankPage_def initial_def ld_defs truthy_def mapCurrency_def
        parse_defs string_defs)
  have m: "metaTags usdEurPage (ldBlocks (ldJson usdEurPage) initial) =
      \<lparr>title = js ''Shoe'', price = numberValue 12.99, priceText = [], currency = euro\<rparr>"
    by (simp add: usdEurPage_def blankPage_def initial_def ld_defs step_defs mapCurrency_def
        parse_defs string_defs)
  have c: "strategyChain (js ''https://shop.example/p'') usdEurPage =
      \<lparr>title = js ''Shoe'', price = numberValue 12.99, priceText = [], currency = euro\<rparr>"
    by (simp add: usdEurPage_def blankPage_def initial_def ld_defs step_defs mapCurrency_def
        parse_defs string_defs)
  have 1: "currency (ldBlocks (ldJson usdEurPage) initial) = dollar"
    by (simp add: l)
  have 2: "currency (metaTags usdEurPage (ldBlocks (ldJson usdEurPage) initial)) = euro"
    by (simp add: m)
  have 3: "scrapeProductData (serve usdEurPage) (js ''https://shop.example/p'') =
     Success (js ''Shoe'') (numberValue 12.99) euro []"
    by (simp add: c serve_result result_def isNaN_def truncateTitle_def length_js)
  have 4: "dollar \<noteq> euro"
    by (simp add: string_defs)
  from 1 2 3 4 show ?thesis by blast
qed

text \<open>
  C4, amended. Steps 2, 3 and 5 write the title only while it is empty, and steps 2, 3, 5 and
  the Trendyol step write the price only while it is \<open>0\<close>. The currency has no such test in
  step 2: a meta-tag currency that is there and not empty replaces the currency, whatever
  step 1 left, and the currency of step 1 stays through step 2 exactly when there is none.
\<close>

theorem title_price_first_writer_currency_not:
  "(title st \<noteq> [] \<longrightarrow>
      title (metaTags pg st) = title st \<and> title (selectors pg st) = title st \<and>
      title (titleFallback pg st) = title st) \<and>
   (\<not> isZero (price st) \<longrightarrow>
      price (metaTags pg st) = price st \<and> price (selectors pg st) = price st \<and>
      price (trendyol url pg st) = price st \<and> price (priceFallback pg st) = price st) \<and>
   (truthy (orElse (meta_product_price_currency pg) (meta_og_price_currency pg)) \<longrightarrow>
      currency (metaTags pg st) =
        mapCurrency (the (orElse (meta_product_price_currency pg) (meta_og_price_currency pg)))) \<and>
   (\<not> truthy (orElse (meta_product_price_currency pg) (meta_og_price_currency pg)) \<longrightarrow>
      currency (metaTags pg st) = currency st)"
  by (simp add: metaTags_def selectors_def trendyol_def titleFallback_def price_scanPrices
      Let_def)

theorem title_price_first_writer_currency_not_witness:
  "title (ldBlocks (ldJson usdEurPage) initial) \<noteq> [] \<and>
   \<not> isZero (price (ldBlocks (ldJson usdEurPage) initial)) \<and>
   truthy (orElse (meta_product_price_currency usdEurPage) (meta_og_price_currency usdEurPage)) \<and>
   \<not> truthy (orElse (meta_product_price_currency blankPage) (meta_og_price_currency blankPage)) \<and>
   title (metaTags usdEurPage (ldBlocks (ldJson usdEurPage) initial)) = js ''Shoe'' \<and>
   price (metaTags usdEurPage (ldBlocks (ldJson usdEurPage) initial)) = numberValue 12.99 \<and>
   currency (metaTags usdEurPage (ldBlocks (ldJson usdEurPage) initial)) = euro \<and>
   currency (metaTags blankPage (ldBlocks (ldJson usdEurPage) initial)) = dollar"
proof -
  let ?st = "ldBlocks (ldJson usdEurPage) initial"
  have l: "?st = \<lparr>title = js ''Shoe'', price = numberValue 12.99, priceText = [], currency = dollar\<rparr>"
    by (simp add: usdEurPage_def blankPage_def initial_def ld_defs truthy_def mapCurrency_def
        parse_defs string_defs)
  have t: "title ?st \<noteq> []" "\<not> isZero (price ?st)"
    by (simp_all add: l isZero_def js_def)
  have c: "orElse (meta_product_price_currency usdEurPage) (meta_og_price_currency usdEurPage) =
      Some (js ''EUR'')"
    "orElse (meta_product_price_currency blankPage) (meta_og_price_currency blankPage) = None"
    by (simp_all add: usdEurPage_def blankPage_def orElse_def truthy_def js_def)
  have tr: "truthy (Some (js ''EUR''))" "\<not> truthy None"
    by (simp_all add: truthy_def js_def)
  have mc: "mapCurrency (js ''EUR'') = euro"
    using js_codes_distinct by (simp add: mapCurrency_def)
  note a = title_price_first_writer_currency_not
    [where st = ?st and pg = usdEurPage and url = "js ''https://shop.example/p''"]
  note b = title_price_first_writer_currency_not
    [where st = ?st and pg = blankPage and url = "js ''https://shop.example/p''"]
  from a t c tr mc have 1: "title (metaTags usdEurPage ?st) = title ?st"
    "price (metaTags usdEurPage ?st) = price ?st" "currency (metaTags usdEurPage ?st) = euro"
    by simp_all
  from b c tr have 2: "currency (metaTags blankPage ?st) = currency ?st"
    by simp
  have 3: "title ?st = js ''Shoe''" "price ?st = numberValue 12.99" "currency ?st = dollar"
    by (simp_all add: l)
  from 1 2 3 t c tr show ?thesis
    by (simp del: One_nat_def)
qed

section \<open>The sign of the price\<close>































end
